theory Spec2Isabelle
  imports Main "HOL-Library.Sublist"
begin

section \<open>The dock's data model (src/src/dockProvider.ts)\<close>

text \<open>
  JavaScript strings are modelled as \<^typ>\<open>string\<close>; a character outside ASCII is written as
  its UTF-8 bytes. An optional field of the \<open>DockItem\<close> interface is an \<open>option\<close>:
  \<open>None\<close> is \<open>undefined\<close>. The field \<open>id\<close> is called \<open>id_of\<close> and the field \<open>type\<close> is
  called \<open>type_of\<close>, since \<open>id\<close> and \<open>type\<close> are taken.
\<close>

datatype item_type = App | File | Folder | Link | FolderGroup

datatype DockItem = DockItem
  (id_of: string)
  (type_of: item_type)
  (name: string)
  (title: "string option")
  (path: "string option")
  (url: "string option")
  (icon: "string option")
  (color: "string option")
  (children: "DockItem list option")
  (command: "string option")

text \<open>The messages the provider shows: \<open>showInformationMessage\<close> and \<open>showErrorMessage\<close>.\<close>

datatype notice = Information string | ErrorMessage string

text \<open>
  The provider's objects form a tree: the list, its items, their \<open>children\<close> arrays.
  An item object is named by its place, a position of the top-level list or a
  position among the children of a top-level item.
\<close>

datatype item_ref = TopLevel nat | InFolder nat nat

text \<open>
  The argument of a status bar command, and the command itself: either a command id
  (the add button) or a \<open>vscode.Command\<close> object with its title and arguments. The
  argument of the folder menu command is the item object itself, not a copy of it.
\<close>

datatype command_arg = UriFile string | UriParse string | ItemArg item_ref

datatype bar_command = CommandId string | Command string string "command_arg list"

record StatusBarItem =
  priority :: int
  bar_text :: string
  tooltip :: string
  bar_command :: "bar_command option"

text \<open>The persisted configuration section \<open>vscode-dock\<close>.\<close>

record Configuration =
  items :: "DockItem list"
  maxItems :: int
  showIcons :: bool
  showTitles :: bool

text \<open>
  The provider's state: the item list, the status bar entries it created, the
  configuration it reads and writes, the messages shown so far (latest last), and
  the errors that ended a method of the provider without being caught.
\<close>

record DockProvider =
  dockItems :: "DockItem list"
  statusBarItems :: "StatusBarItem list"
  config :: Configuration
  shown :: "notice list"
  uncaught :: "string list"

text \<open>
  A call that returns, or throws with the text of the error; both leave a state.
\<close>

datatype 'a outcome = Returned 'a | Threw string 'a

fun state_of :: "'a outcome \<Rightarrow> 'a" where
  "state_of (Returned s) = s"
| "state_of (Threw e s) = s"

text \<open>
  What the host supplies and the repository does not define: \<open>path.basename\<close>,
  \<open>path.extname\<close>, the text the engine gives for a member of \<open>Object.prototype\<close>
  when it is converted to a string, and \<open>vscode.Uri.parse\<close> and \<open>vscode.Uri.file\<close>,
  which check their argument: \<open>uri_error\<close> and \<open>file_uri_error\<close> give the text of the
  error thrown for a string, \<open>None\<close> for a string that is accepted.
\<close>

record Host =
  basename :: "string \<Rightarrow> string"
  extname :: "string \<Rightarrow> string"
  inherited_text :: "string \<Rightarrow> string"
  uri_error :: "string \<Rightarrow> string option"
  file_uri_error :: "string \<Rightarrow> string option"

subsection \<open>JavaScript values and truthiness\<close>

text \<open>\<open>a || b\<close> on an optional string: \<open>undefined\<close> and the empty string are falsy.\<close>

definition truthy :: "string option \<Rightarrow> bool" where
  "truthy v = (case v of None \<Rightarrow> False | Some s \<Rightarrow> s \<noteq> [])"

definition or_else :: "string option \<Rightarrow> string \<Rightarrow> string" where
  "or_else v d = (case v of None \<Rightarrow> d | Some s \<Rightarrow> if s = [] then d else s)"

text \<open>
  Reading \<open>obj[key]\<close> on an object literal finds the literal's own properties first and
  then those of \<open>Object.prototype\<close>, which every object literal inherits. The result is
  a string of the literal or the inherited member (a function or an object, so a
  truthy value).
\<close>

datatype jsval = JString string | JInherited string

definition Object_prototype_keys :: "string list" where
  "Object_prototype_keys =
     [''constructor'', ''__defineGetter__'', ''__defineSetter__'', ''hasOwnProperty'',
      ''__lookupGetter__'', ''__lookupSetter__'', ''isPrototypeOf'',
      ''propertyIsEnumerable'', ''toString'', ''valueOf'', ''__proto__'',
      ''toLocaleString'']"

definition get_property :: "(string \<times> string) list \<Rightarrow> string \<Rightarrow> jsval option" where
  "get_property obj key =
     (case map_of obj key of
        Some s \<Rightarrow> Some (JString s)
      | None \<Rightarrow> if key \<in> set Object_prototype_keys then Some (JInherited key) else None)"

text \<open>\<open>v || d\<close> for a property read: a missing property and the empty string give \<open>d\<close>.\<close>

definition property_or :: "jsval option \<Rightarrow> string \<Rightarrow> jsval" where
  "property_or v d =
     (case v of
        None \<Rightarrow> JString d
      | Some (JString s) \<Rightarrow> if s = [] then JString d else JString s
      | Some (JInherited k) \<Rightarrow> JInherited k)"

definition to_text :: "Host \<Rightarrow> jsval \<Rightarrow> string" where
  "to_text h v = (case v of JString s \<Rightarrow> s | JInherited k \<Rightarrow> inherited_text h k)"

subsection \<open>Default items\<close>

definition getDefaultItems :: "DockItem list" where
  "getDefaultItems =
     [DockItem ''terminal'' App ''Terminal'' None None None (Some ''$(terminal)'') None None
        (Some ''workbench.action.terminal.new''),
      DockItem ''explorer'' App ''Explorer'' None None None (Some ''$(files)'') None None
        (Some ''workbench.view.explorer''),
      DockItem ''git'' App ''Git'' None None None (Some ''$(git-branch)'') None None
        (Some ''workbench.view.scm''),
      DockItem ''extensions'' App ''Extensions'' None None None (Some ''$(extensions)'') None None
        (Some ''workbench.view.extensions'')]"

subsection \<open>Colour lookup\<close>

definition colorMap :: "(string \<times> string) list" where
  "colorMap =
     [(''#007ACC'', [CHR 0xF0, CHR 0x9F, CHR 0x94, CHR 0xB5]),
      (''#28A745'', [CHR 0xF0, CHR 0x9F, CHR 0x9F, CHR 0xA2]),
      (''#DC3545'', [CHR 0xF0, CHR 0x9F, CHR 0x9F, CHR 0xA5]),
      (''#FD7E14'', [CHR 0xF0, CHR 0x9F, CHR 0x9F, CHR 0xA0]),
      (''#6F42C1'', [CHR 0xF0, CHR 0x9F, CHR 0x9F, CHR 0xA3]),
      (''#E83E8C'', [CHR 0xF0, CHR 0x9F, CHR 0x9F, CHR 0xAA]),
      (''#FFC107'', [CHR 0xF0, CHR 0x9F, CHR 0x9F, CHR 0xA1]),
      (''#20C997'', [CHR 0xF0, CHR 0x9F, CHR 0x92, CHR 0x8E])]"

text \<open>The white circle U+26AA, the glyph after \<open>||\<close> in \<open>getColorIcon\<close>.\<close>

definition white_circle :: string where
  "white_circle = [CHR 0xE2, CHR 0x9A, CHR 0xAA]"

definition getColorIcon :: "string \<Rightarrow> jsval" where
  "getColorIcon c = property_or (get_property colorMap c) white_circle"

definition colorNames :: "(string \<times> string) list" where
  "colorNames =
     [(''#007ACC'', ''Blue''), (''#28A745'', ''Green''), (''#DC3545'', ''Red''),
      (''#FD7E14'', ''Orange''), (''#6F42C1'', ''Purple''), (''#E83E8C'', ''Pink''),
      (''#FFC107'', ''Yellow''), (''#20C997'', ''Teal'')]"

definition getColorName :: "string \<Rightarrow> jsval" where
  "getColorName c = property_or (get_property colorNames c) ''Custom''"

subsection \<open>The projection: \<open>createDockItems\<close>\<close>

text \<open>
  \<open>Inl\<close> is the error that \<open>vscode.Uri.file\<close> throws on the path of a file or folder
  item, or \<open>vscode.Uri.parse\<close> on the url of a link.
\<close>

definition getCommandForItem :: "Host \<Rightarrow> DockItem \<Rightarrow> string + bar_command option" where
  "getCommandForItem h item =
     (case type_of item of
        App \<Rightarrow> (if truthy (command item)
                 then Inr (Some (Command (the (command item)) (name item) [])) else Inr None)
      | File \<Rightarrow> (if truthy (path item)
                  then (case file_uri_error h (the (path item)) of
                          Some e \<Rightarrow> Inl e
                        | None \<Rightarrow> Inr (Some (Command ''vscode.open'' (name item)
                                                [UriFile (the (path item))])))
                  else Inr None)
      | Folder \<Rightarrow> (if truthy (path item)
                    then (case file_uri_error h (the (path item)) of
                            Some e \<Rightarrow> Inl e
                          | None \<Rightarrow> Inr (Some (Command ''vscode.openFolder'' (name item)
                                                  [UriFile (the (path item))])))
                    else Inr None)
      | Link \<Rightarrow> (if truthy (url item)
                  then (case uri_error h (the (url item)) of
                          Some e \<Rightarrow> Inl e
                        | None \<Rightarrow> Inr (Some (Command ''vscode.open'' (name item)
                                                [UriParse (the (url item))])))
                  else Inr None)
      | FolderGroup \<Rightarrow> Inr None)"

text \<open>
  \<open>Array.prototype.slice(0, end)\<close> for an integer \<open>end\<close>: a negative \<open>end\<close> counts from
  the end of the array.
\<close>

definition slice0 :: "'a list \<Rightarrow> int \<Rightarrow> 'a list" where
  "slice0 xs e =
     (let n = int (length xs);
          k = (if e < 0 then max (n + e) 0 else min e n)
      in take (nat k) xs)"

text \<open>
  \<open>name.length\<close> counts UTF-16 code units. A string is held here as UTF-8 bytes: a
  byte that continues a character counts for none, the first byte of a character
  of four bytes (a character outside the basic plane, a surrogate pair) for two,
  and any other first byte for one.
\<close>

definition utf16_units :: "char \<Rightarrow> nat" where
  "utf16_units c =
     (let b = (of_char c :: nat)
      in if b < 128 then 1 else if b < 192 then 0 else if b < 240 then 1 else 2)"

definition utf16_length :: "string \<Rightarrow> nat" where
  "utf16_length s = sum_list (map utf16_units s)"

text \<open>The label and the tooltip of an entry.\<close>

definition displayText :: "Host \<Rightarrow> Configuration \<Rightarrow> DockItem \<Rightarrow> string" where
  "displayText h cfg item =
     (if showIcons cfg \<and> truthy (icon item)
      then (if truthy (color item)
            then to_text h (getColorIcon (the (color item))) @ '' '' else [])
           @ the (icon item)
           @ (if showTitles cfg \<and> name item \<noteq> [] \<and> utf16_length (name item) \<le> 20
              then '' '' @ name item else [])
      else name item)"

definition tooltipText :: "Host \<Rightarrow> DockItem \<Rightarrow> string" where
  "tooltipText h item =
     or_else (title item) (name item)
     @ (if truthy (color item)
        then '' ('' @ to_text h (getColorName (the (color item))) @ '')'' else [])"

text \<open>
  The command of the entry at position \<open>index\<close>. The shown items are the first items
  of the list, so the item at position \<open>index\<close> of the slice is the object at that
  position of the list.
\<close>

definition itemCommand :: "Host \<Rightarrow> nat \<Rightarrow> DockItem \<Rightarrow> string + bar_command option" where
  "itemCommand h index item =
     (if type_of item = FolderGroup \<and> children item \<noteq> None
      then Inr (Some (Command ''vscode-dock.showFolderMenu'' (name item)
                        [ItemArg (TopLevel index)]))
      else getCommandForItem h item)"

text \<open>
  The body of the \<open>forEach\<close> callback: the entry for the item at position \<open>index\<close>, or
  the error thrown before the entry is shown and pushed.
\<close>

definition statusBarItemFor ::
  "Host \<Rightarrow> Configuration \<Rightarrow> nat \<Rightarrow> DockItem \<Rightarrow> string + StatusBarItem" where
  "statusBarItemFor h cfg index item =
     (case itemCommand h index item of
        Inl e \<Rightarrow> Inl e
      | Inr c \<Rightarrow>
          Inr \<lparr>priority = 1000 - int index,
               bar_text = displayText h cfg item,
               tooltip = tooltipText h item,
               bar_command = c\<rparr>)"

definition addButton :: StatusBarItem where
  "addButton =
     \<lparr>priority = 500, bar_text = ''$(plus)'', tooltip = ''Add item to dock'',
      bar_command = Some (CommandId ''vscode-dock.addItem'')\<rparr>"

text \<open>
  The \<open>forEach\<close> loop over the shown items, from position \<open>index\<close> on: \<open>entries\<close> are
  the entries pushed so far. An error in the callback ends the loop.
\<close>

fun forEachItem ::
  "Host \<Rightarrow> Configuration \<Rightarrow> nat \<Rightarrow> DockItem list \<Rightarrow> StatusBarItem list
   \<Rightarrow> StatusBarItem list outcome" where
  "forEachItem h cfg index [] entries = Returned entries"
| "forEachItem h cfg index (item # rest) entries =
     (case statusBarItemFor h cfg index item of
        Inl e \<Rightarrow> Threw e entries
      | Inr entry \<Rightarrow> forEachItem h cfg (Suc index) rest (entries @ [entry]))"

text \<open>
  \<open>createDockItems\<close> empties \<open>statusBarItems\<close>, runs the loop and then pushes the add
  button. An error in the loop leaves the method there: the entries pushed so far
  stay, and no add button is created.
\<close>

definition createDockItems :: "Host \<Rightarrow> DockProvider \<Rightarrow> DockProvider outcome" where
  "createDockItems h p =
     (let shownItems = slice0 (dockItems p) (maxItems (config p))
      in case forEachItem h (config p) 0 shownItems [] of
           Threw e entries \<Rightarrow> Threw e (p\<lparr>statusBarItems := entries\<rparr>)
         | Returned entries \<Rightarrow> Returned (p\<lparr>statusBarItems := entries @ [addButton]\<rparr>))"

text \<open>
  The rest of a method after a call: \<open>rest\<close> runs when the call returns. When the
  call throws, the method ends there with the error, which no caller catches.
\<close>

definition and_then :: "DockProvider outcome \<Rightarrow> (DockProvider \<Rightarrow> DockProvider) \<Rightarrow> DockProvider" where
  "and_then r rest =
     (case r of
        Returned q \<Rightarrow> rest q
      | Threw e q \<Rightarrow> q\<lparr>uncaught := uncaught q @ [e]\<rparr>)"

definition saveConfiguration :: "DockProvider \<Rightarrow> DockProvider" where
  "saveConfiguration p = p\<lparr>config := (config p)\<lparr>items := dockItems p\<rparr>\<rparr>"

definition showMessage :: "notice \<Rightarrow> DockProvider \<Rightarrow> DockProvider" where
  "showMessage m p = p\<lparr>shown := shown p @ [m]\<rparr>"

subsection \<open>Reset to defaults: \<open>clearAllItems\<close>\<close>

text \<open>\<open>result\<close> is the button of the warning dialog the user chose, if any.\<close>

definition clearAllItems :: "Host \<Rightarrow> string option \<Rightarrow> DockProvider \<Rightarrow> DockProvider" where
  "clearAllItems h result p =
     (if result = Some ''Yes''
      then and_then
             (createDockItems h (saveConfiguration (p\<lparr>dockItems := getDefaultItems\<rparr>)))
             (showMessage
                (Information ''All custom dock items cleared. Default VSCode items restored.''))
      else p)"

subsection \<open>Generated ids\<close>

text \<open>
  \<open>Date.now()\<close> is a natural number of milliseconds; a template literal renders it in
  decimal. \<open>Math.random()\<close> enters an id only through its rendering, a string.
\<close>

definition digit_char :: "nat \<Rightarrow> char" where
  "digit_char d = ''0123456789'' ! d"

fun string_of_nat :: "nat \<Rightarrow> string" where
  "string_of_nat n =
     (if n < 10 then [digit_char n] else string_of_nat (n div 10) @ [digit_char (n mod 10)])"

declare string_of_nat.simps [simp del]

subsection \<open>Creating items from the user's answers\<close>

text \<open>
  Every prompt's answer is an argument: \<open>None\<close> is a dismissed prompt (\<open>undefined\<close>).
  \<open>now\<close> is the value of \<open>Date.now()\<close> when the item object is built. The four
  \<open>add...Item\<close> methods of the source build the same object as the four
  \<open>create...Item\<close> methods and push it on the top-level list.
\<close>

definition createAppItem ::
  "nat \<Rightarrow> string option \<Rightarrow> string option \<Rightarrow> string option \<Rightarrow> string option
   \<Rightarrow> DockItem option" where
  "createAppItem now nameIn titleIn commandIn iconIn =
     (if \<not> truthy nameIn then None
      else Some (DockItem (''app-'' @ string_of_nat now) App (the nameIn)
                   (Some (or_else titleIn (the nameIn))) None None iconIn None None commandIn))"

text \<open>ASCII letters only; \<open>String.prototype.toLowerCase\<close> on a file extension.\<close>

definition toLowerCase :: "string \<Rightarrow> string" where
  "toLowerCase s =
     map (\<lambda>c. if (65::nat) \<le> of_char c \<and> of_char c \<le> (90::nat)
              then char_of (of_char c + (32::nat)) else c) s"

definition iconMap :: "(string \<times> string) list" where
  "iconMap =
     [(''.js'', ''$(symbol-method)''), (''.ts'', ''$(symbol-method)''), (''.html'', ''$(globe)''),
      (''.css'', ''$(symbol-color)''), (''.json'', ''$(symbol-object)''), (''.md'', ''$(book)''),
      (''.txt'', ''$(file-text)''), (''.pdf'', ''$(file-pdf)''), (''.png'', ''$(file-media)''),
      (''.jpg'', ''$(file-media)''), (''.gif'', ''$(file-media)''), (''.svg'', ''$(file-media)'')]"

text \<open>
  \<open>path.extname\<close> returns the empty string or a string that starts with a dot, so the
  key is never the name of an inherited member and the lookup is one in the literal.
\<close>

definition getFileIcon :: "Host \<Rightarrow> string \<Rightarrow> string" where
  "getFileIcon h fileName =
     or_else (map_of iconMap (toLowerCase (extname h fileName))) ''$(file)''"

text \<open>\<open>fileUri\<close> is the result of \<open>showOpenDialog\<close>: the \<open>fsPath\<close> of each chosen entry.\<close>

definition createFileItem ::
  "Host \<Rightarrow> nat \<Rightarrow> string list option \<Rightarrow> string option \<Rightarrow> DockItem option" where
  "createFileItem h now fileUri titleIn =
     (case fileUri of
        None \<Rightarrow> None
      | Some [] \<Rightarrow> None
      | Some (filePath # _) \<Rightarrow>
          (let fileName = basename h filePath
           in Some (DockItem (''file-'' @ string_of_nat now) File fileName
                      (Some (or_else titleIn fileName)) (Some filePath) None
                      (Some (getFileIcon h fileName)) None None None)))"

definition createFolderItem ::
  "Host \<Rightarrow> nat \<Rightarrow> string list option \<Rightarrow> string option \<Rightarrow> DockItem option" where
  "createFolderItem h now folderUri titleIn =
     (case folderUri of
        None \<Rightarrow> None
      | Some [] \<Rightarrow> None
      | Some (folderPath # _) \<Rightarrow>
          (let folderName = basename h folderPath
           in Some (DockItem (''folder-'' @ string_of_nat now) Folder folderName
                      (Some (or_else titleIn folderName)) (Some folderPath) None
                      (Some ''$(folder)'') None None None)))"

definition createLinkItem ::
  "nat \<Rightarrow> string option \<Rightarrow> string option \<Rightarrow> string option \<Rightarrow> DockItem option" where
  "createLinkItem now urlIn nameIn titleIn =
     (if \<not> truthy urlIn then None
      else if \<not> truthy nameIn then None
      else Some (DockItem (''link-'' @ string_of_nat now) Link (the nameIn)
                   (Some (or_else titleIn (the nameIn))) None urlIn
                   (Some ''$(globe)'') None None None))"


text \<open>\<open>this.dockItems.push(newItem); saveConfiguration(); createDockItems()\<close>.\<close>

definition pushItem :: "Host \<Rightarrow> DockItem option \<Rightarrow> DockProvider \<Rightarrow> DockProvider" where
  "pushItem h created p =
     (case created of
        None \<Rightarrow> p
      | Some newItem \<Rightarrow>
          and_then
            (createDockItems h (saveConfiguration (p\<lparr>dockItems := dockItems p @ [newItem]\<rparr>)))
            (\<lambda>q. q))"




definition addLinkItem ::
  "Host \<Rightarrow> nat \<Rightarrow> string option \<Rightarrow> string option \<Rightarrow> string option
   \<Rightarrow> DockProvider \<Rightarrow> DockProvider" where
  "addLinkItem h now urlIn nameIn titleIn p =
     pushItem h (createLinkItem now urlIn nameIn titleIn) p"


subsection \<open>References to item objects\<close>

text \<open>
  \<open>editItem\<close>, \<open>addItemToFolder\<close> and \<open>moveItemInFolder\<close> receive an item object and
  assign to its fields. The object is named by its place, and an assignment to the
  object is an update at that place. The source always holds an object; a place
  that names none leaves the provider as it is.
\<close>

definition set_name :: "string \<Rightarrow> DockItem \<Rightarrow> DockItem" where
  "set_name v item =
     (case item of DockItem i t n ti p u ic c ch cm \<Rightarrow> DockItem i t v ti p u ic c ch cm)"

definition set_title :: "string option \<Rightarrow> DockItem \<Rightarrow> DockItem" where
  "set_title v item =
     (case item of DockItem i t n ti p u ic c ch cm \<Rightarrow> DockItem i t n v p u ic c ch cm)"

definition set_url :: "string option \<Rightarrow> DockItem \<Rightarrow> DockItem" where
  "set_url v item =
     (case item of DockItem i t n ti p u ic c ch cm \<Rightarrow> DockItem i t n ti p v ic c ch cm)"

definition set_icon :: "string option \<Rightarrow> DockItem \<Rightarrow> DockItem" where
  "set_icon v item =
     (case item of DockItem i t n ti p u ic c ch cm \<Rightarrow> DockItem i t n ti p u v c ch cm)"

definition set_color :: "string option \<Rightarrow> DockItem \<Rightarrow> DockItem" where
  "set_color v item =
     (case item of DockItem i t n ti p u ic c ch cm \<Rightarrow> DockItem i t n ti p u ic v ch cm)"

definition set_children :: "DockItem list option \<Rightarrow> DockItem \<Rightarrow> DockItem" where
  "set_children v item =
     (case item of DockItem i t n ti p u ic c ch cm \<Rightarrow> DockItem i t n ti p u ic c v cm)"

definition set_command :: "string option \<Rightarrow> DockItem \<Rightarrow> DockItem" where
  "set_command v item =
     (case item of DockItem i t n ti p u ic c ch cm \<Rightarrow> DockItem i t n ti p u ic c ch v)"

definition modify_at :: "nat \<Rightarrow> ('a \<Rightarrow> 'a) \<Rightarrow> 'a list \<Rightarrow> 'a list" where
  "modify_at i f xs = (if i < length xs then xs[i := f (xs ! i)] else xs)"

definition nth_opt :: "'a list \<Rightarrow> nat \<Rightarrow> 'a option" where
  "nth_opt xs i = (if i < length xs then Some (xs ! i) else None)"

fun resolve :: "DockItem list \<Rightarrow> item_ref \<Rightarrow> DockItem option" where
  "resolve xs (TopLevel i) = nth_opt xs i"
| "resolve xs (InFolder i j) =
     (case nth_opt xs i of
        None \<Rightarrow> None
      | Some folder \<Rightarrow>
          (case children folder of None \<Rightarrow> None | Some cs \<Rightarrow> nth_opt cs j))"

fun update_ref :: "item_ref \<Rightarrow> (DockItem \<Rightarrow> DockItem) \<Rightarrow> DockItem list \<Rightarrow> DockItem list" where
  "update_ref (TopLevel i) f xs = modify_at i f xs"
| "update_ref (InFolder i j) f xs =
     modify_at i (\<lambda>folder. set_children (map_option (modify_at j f) (children folder)) folder) xs"

definition quoted :: "string \<Rightarrow> string" where
  "quoted s = CHR 0x22 # s @ [CHR 0x22]"

subsection \<open>\<open>editItem\<close>\<close>

text \<open>
  The answers to the prompts of \<open>editItem\<close>. \<open>colorValue\<close> is the \<open>value\<close> of the picked
  colour entry (\<open>None\<close>: the pick was dismissed). A prompt that the item's type does
  not reach is not read.
\<close>

record EditAnswers =
  newName :: "string option"
  newTitle :: "string option"
  newCommand :: "string option"
  newIcon :: "string option"
  colorValue :: "string option"
  newUrl :: "string option"

text \<open>The assignments of \<open>editItem\<close> to the item object; \<open>None\<close> when the edit is cancelled.\<close>

definition editFields :: "DockItem \<Rightarrow> EditAnswers \<Rightarrow> DockItem option" where
  "editFields item a =
     (if newName a = None then None
      else if newTitle a = None then None
      else
        (let item1 = set_title (newTitle a) (set_name (the (newName a)) item);
             item2 = (if type_of item1 = App
                      then (let i1 = (if newCommand a \<noteq> None
                                      then set_command (newCommand a) item1 else item1)
                            in if newIcon a \<noteq> None then set_icon (newIcon a) i1 else i1)
                      else item1);
             item3 = (if type_of item2 = FolderGroup
                      then (case colorValue a of
                              None \<Rightarrow> item2
                            | Some v \<Rightarrow> set_color (if v = [] then None else Some v) item2)
                      else item2);
             item4 = (if type_of item3 = Link
                      then (if newUrl a \<noteq> None then set_url (newUrl a) item3 else item3)
                      else item3)
         in Some item4))"

definition editItem :: "Host \<Rightarrow> item_ref \<Rightarrow> EditAnswers \<Rightarrow> DockProvider \<Rightarrow> DockProvider" where
  "editItem h r a p =
     (case resolve (dockItems p) r of
        None \<Rightarrow> p
      | Some item \<Rightarrow>
          (case editFields item a of
             None \<Rightarrow> p
           | Some item' \<Rightarrow>
               and_then
                 (createDockItems h
                    (saveConfiguration
                       (p\<lparr>dockItems := update_ref r (\<lambda>_. item') (dockItems p)\<rparr>)))
                 (showMessage
                    (Information (''Updated '' @ quoted (name item') @ '' successfully.'')))))"

subsection \<open>Reordering: \<open>moveItem\<close> and \<open>moveItemInFolder\<close>\<close>

text \<open>\<open>Array.prototype.findIndex\<close>: \<open>None\<close> stands for the result \<open>-1\<close>.\<close>

fun findIndex :: "('a \<Rightarrow> bool) \<Rightarrow> 'a list \<Rightarrow> nat option" where
  "findIndex P [] = None"
| "findIndex P (x # xs) =
     (if P x then Some 0 else map_option Suc (findIndex P xs))"

text \<open>The destructuring swap of two positions that are both in range.\<close>

definition swap :: "nat \<Rightarrow> nat \<Rightarrow> 'a list \<Rightarrow> 'a list" where
  "swap i j xs = xs[i := xs ! j, j := xs ! i]"

definition moveItem :: "Host \<Rightarrow> DockItem \<Rightarrow> int \<Rightarrow> DockProvider \<Rightarrow> DockProvider" where
  "moveItem h item direction p =
     (case findIndex (\<lambda>i. id_of i = id_of item) (dockItems p) of
        None \<Rightarrow> p
      | Some index \<Rightarrow>
          (let newIndex = int index + direction
           in if newIndex < 0 \<or> newIndex \<ge> int (length (dockItems p))
              then showMessage (Information ''Cannot move item in that direction.'') p
              else and_then
                     (createDockItems h
                        (saveConfiguration
                           (p\<lparr>dockItems := swap index (nat newIndex) (dockItems p)\<rparr>)))
                     (showMessage
                        (Information (''Moved '' @ quoted (name item) @ '' ''
                           @ (if direction > 0 then ''down'' else ''up'')
                           @ '' successfully.'')))))"

definition moveItemInFolder ::
  "Host \<Rightarrow> DockItem \<Rightarrow> item_ref \<Rightarrow> int \<Rightarrow> DockProvider \<Rightarrow> DockProvider" where
  "moveItemInFolder h item folder direction p =
     (case resolve (dockItems p) folder of
        None \<Rightarrow> p
      | Some f \<Rightarrow>
          (case children f of
             None \<Rightarrow> p
           | Some cs \<Rightarrow>
               (case findIndex (\<lambda>child. id_of child = id_of item) cs of
                  None \<Rightarrow> p
                | Some index \<Rightarrow>
                    (let newIndex = int index + direction
                     in if newIndex < 0 \<or> newIndex \<ge> int (length cs)
                        then showMessage
                               (Information
                                  ''Cannot move item in that direction within the folder.'') p
                        else and_then
                               (createDockItems h
                                  (saveConfiguration
                                     (p\<lparr>dockItems :=
                                          update_ref folder
                                            (set_children (Some (swap index (nat newIndex) cs)))
                                            (dockItems p)\<rparr>)))
                               (showMessage
                                  (Information (''Moved '' @ quoted (name item) @ '' ''
                                     @ (if direction > 0 then ''down'' else ''up'') @ '' in ''
                                     @ quoted (name f) @ '' folder.'')))))))"

subsection \<open>\<open>addItemToFolder\<close>\<close>

text \<open>
  The entry picked in the type menu of \<open>addItemToFolder\<close>, with the answers to the
  prompts that follow it. \<open>createItem\<close> is the method's chain of tests on the entry's
  label: App/Command, File, Folder, Web Link.
\<close>

datatype item_request =
    AppCommand "string option" "string option" "string option" "string option"
  | FileRequest "string list option" "string option"
  | FolderRequest "string list option" "string option"
  | WebLink "string option" "string option" "string option"

fun createItem :: "Host \<Rightarrow> nat \<Rightarrow> item_request \<Rightarrow> DockItem option" where
  "createItem h now (AppCommand nameIn titleIn commandIn iconIn) =
     createAppItem now nameIn titleIn commandIn iconIn"
| "createItem h now (FileRequest fileUri titleIn) = createFileItem h now fileUri titleIn"
| "createItem h now (FolderRequest folderUri titleIn) = createFolderItem h now folderUri titleIn"
| "createItem h now (WebLink urlIn nameIn titleIn) = createLinkItem now urlIn nameIn titleIn"

text \<open>\<open>if (!folderItem.children) folderItem.children = []; folderItem.children.push(newItem)\<close>.\<close>

definition pushChild :: "DockItem \<Rightarrow> DockItem \<Rightarrow> DockItem" where
  "pushChild newItem folderItem =
     set_children
       (Some ((case children folderItem of None \<Rightarrow> [] | Some cs \<Rightarrow> cs) @ [newItem]))
       folderItem"

definition addItemToFolder ::
  "Host \<Rightarrow> nat \<Rightarrow> item_ref \<Rightarrow> item_request option \<Rightarrow> DockProvider \<Rightarrow> DockProvider" where
  "addItemToFolder h now folderItem itemType p =
     (case itemType of
        None \<Rightarrow> p
      | Some request \<Rightarrow>
          (case createItem h now request of
             None \<Rightarrow> p
           | Some newItem \<Rightarrow>
               (case resolve (dockItems p) folderItem of
                  None \<Rightarrow> p
                | Some target \<Rightarrow>
                    showMessage
                      (Information (''Added '' @ quoted (name newItem) @ '' to ''
                         @ quoted (name target) @ '' folder.''))
                      (saveConfiguration
                         (p\<lparr>dockItems :=
                              update_ref folderItem (pushChild newItem) (dockItems p)\<rparr>)))))"

subsection \<open>Importing bookmarks\<close>

text \<open>
  A node of the bookmark file as the code reads it: \<open>type\<close>, \<open>name\<close>, \<open>url\<close> and
  \<open>children\<close>. The file gives \<open>roots\<close>, an object whose values are the root nodes.
\<close>

datatype BookmarkNode = BookmarkNode
  (node_type: string)
  (node_name: string)
  (node_url: "string option")
  (node_children: "BookmarkNode list option")

record BookmarksData =
  roots :: "BookmarkNode list option"

text \<open>
  \<open>clock k\<close> and \<open>random k\<close> are \<open>Date.now()\<close> and the rendering of \<open>Math.random()\<close> when
  the item with index \<open>k\<close> of the result is built.
\<close>

fun parseBookmarkNode ::
      "(nat \<Rightarrow> nat) \<Rightarrow> (nat \<Rightarrow> string) \<Rightarrow> BookmarkNode \<Rightarrow> DockItem list \<Rightarrow> DockItem list"
  and parseBookmarkNodes ::
      "(nat \<Rightarrow> nat) \<Rightarrow> (nat \<Rightarrow> string) \<Rightarrow> BookmarkNode list \<Rightarrow> DockItem list \<Rightarrow> DockItem list"
where
  "parseBookmarkNode clock random (BookmarkNode ty nm u ch) acc =
     (if ty = ''url''
      then acc @ [DockItem (''chrome-'' @ string_of_nat (clock (length acc)) @ ''-''
                              @ random (length acc))
                    Link nm None None u (Some ''$(globe)'') None None None]
      else if ty = ''folder''
      then (case ch of None \<Rightarrow> acc | Some cs \<Rightarrow> parseBookmarkNodes clock random cs acc)
      else acc)"
| "parseBookmarkNodes clock random [] acc = acc"
| "parseBookmarkNodes clock random (child # rest) acc =
     parseBookmarkNodes clock random rest (parseBookmarkNode clock random child acc)"

fun parseRoots ::
  "(nat \<Rightarrow> nat) \<Rightarrow> (nat \<Rightarrow> string) \<Rightarrow> BookmarkNode list \<Rightarrow> DockItem list \<Rightarrow> DockItem list" where
  "parseRoots clock random [] acc = acc"
| "parseRoots clock random (root # rest) acc =
     parseRoots clock random rest
       (case node_children root of
          None \<Rightarrow> acc
        | Some cs \<Rightarrow> parseBookmarkNodes clock random cs acc)"

definition parseChromeBookmarks ::
  "(nat \<Rightarrow> nat) \<Rightarrow> (nat \<Rightarrow> string) \<Rightarrow> BookmarksData \<Rightarrow> DockItem list" where
  "parseChromeBookmarks clock random bookmarksData =
     (case roots bookmarksData of None \<Rightarrow> [] | Some rs \<Rightarrow> parseRoots clock random rs [])"

text \<open>
  What reading the bookmark file gives: no file, a failure that the \<open>try\<close> block
  catches (with the text of the error: the file cannot be read, is not JSON, or has
  a node that is not an object), or the parsed data. The \<open>try\<close> block also holds the
  call of \<open>createDockItems\<close>, so an error there is caught and reported.
\<close>

datatype bookmarks_file = NotFound | Throws string | Parsed BookmarksData

definition importChromeBookmarks ::
  "Host \<Rightarrow> (nat \<Rightarrow> nat) \<Rightarrow> (nat \<Rightarrow> string) \<Rightarrow> bookmarks_file \<Rightarrow> DockProvider \<Rightarrow> DockProvider" where
  "importChromeBookmarks h clock random file p =
     (case file of
        NotFound \<Rightarrow>
          showMessage
            (ErrorMessage
               ''Chrome bookmarks file not found. Please make sure Chrome is installed.'') p
      | Throws error \<Rightarrow>
          showMessage (ErrorMessage (''Failed to import Chrome bookmarks: '' @ error)) p
      | Parsed bookmarksData \<Rightarrow>
          (let importedItems = parseChromeBookmarks clock random bookmarksData
           in if length importedItems > 0
              then (case createDockItems h
                           (saveConfiguration (p\<lparr>dockItems := dockItems p @ importedItems\<rparr>)) of
                      Returned q \<Rightarrow>
                        showMessage
                          (Information (''Imported '' @ string_of_nat (length importedItems)
                             @ '' bookmarks from Chrome.'')) q
                    | Threw error q \<Rightarrow>
                        showMessage
                          (ErrorMessage (''Failed to import Chrome bookmarks: '' @ error)) q)
              else showMessage (Information ''No bookmarks found to import.'') p))"

section \<open>Notions the properties are stated with\<close>

subsection \<open>The bookmark tree\<close>

text \<open>
  Every node of the tree in depth-first pre-order, whatever its type: a node, then
  the nodes of its children from first to last. \<open>tree_nodes\<close> starts at the roots.
\<close>

fun preorder :: "BookmarkNode \<Rightarrow> BookmarkNode list"
  and preorder_list :: "BookmarkNode list \<Rightarrow> BookmarkNode list" where
  "preorder (BookmarkNode ty nm u ch) =
     BookmarkNode ty nm u ch # (case ch of None \<Rightarrow> [] | Some cs \<Rightarrow> preorder_list cs)"
| "preorder_list [] = []"
| "preorder_list (c # cs) = preorder c @ preorder_list cs"

definition tree_nodes :: "BookmarksData \<Rightarrow> BookmarkNode list" where
  "tree_nodes d = (case roots d of None \<Rightarrow> [] | Some rs \<Rightarrow> preorder_list rs)"

text \<open>A url-typed node, and a node without children.\<close>

definition is_url :: "BookmarkNode \<Rightarrow> bool" where
  "is_url n = (node_type n = ''url'')"

definition is_leaf :: "BookmarkNode \<Rightarrow> bool" where
  "is_leaf n = (node_children n = None \<or> node_children n = Some [])"

definition url_leaves :: "BookmarksData \<Rightarrow> BookmarkNode list" where
  "url_leaves d = filter (\<lambda>n. is_url n \<and> is_leaf n) (tree_nodes d)"

text \<open>
  The nodes reached from the child lists of the roots by going down through
  folder-typed nodes that have a child list only: a url-typed node is taken and not
  entered, a node of any other type is left out with all below it.
\<close>

fun imported_from :: "BookmarkNode \<Rightarrow> BookmarkNode list"
  and imported_from_list :: "BookmarkNode list \<Rightarrow> BookmarkNode list" where
  "imported_from (BookmarkNode ty nm u ch) =
     (if ty = ''url'' then [BookmarkNode ty nm u ch]
      else if ty = ''folder''
      then (case ch of None \<Rightarrow> [] | Some cs \<Rightarrow> imported_from_list cs)
      else [])"
| "imported_from_list [] = []"
| "imported_from_list (c # cs) = imported_from c @ imported_from_list cs"

fun imported_from_roots :: "BookmarkNode list \<Rightarrow> BookmarkNode list" where
  "imported_from_roots [] = []"
| "imported_from_roots (r # rs) =
     (case node_children r of None \<Rightarrow> [] | Some cs \<Rightarrow> imported_from_list cs)
     @ imported_from_roots rs"

definition imported_nodes :: "BookmarksData \<Rightarrow> BookmarkNode list" where
  "imported_nodes d = (case roots d of None \<Rightarrow> [] | Some rs \<Rightarrow> imported_from_roots rs)"

text \<open>What an imported item takes from its node: the name and the url.\<close>

definition item_info :: "DockItem \<Rightarrow> string \<times> string option" where
  "item_info i = (name i, url i)"

definition node_info :: "BookmarkNode \<Rightarrow> string \<times> string option" where
  "node_info n = (node_name n, node_url n)"

text \<open>
  A tree as the browser writes it: no root is url-typed, and every node below the
  roots is a url-typed node without children or a folder-typed node.
\<close>

definition plain_node :: "BookmarkNode \<Rightarrow> bool" where
  "plain_node n = ((is_url n \<and> is_leaf n) \<or> node_type n = ''folder'')"

definition below_roots :: "BookmarkNode list \<Rightarrow> BookmarkNode list" where
  "below_roots rs =
     concat (map (\<lambda>r. case node_children r of None \<Rightarrow> [] | Some cs \<Rightarrow> preorder_list cs) rs)"

definition plain_tree :: "BookmarksData \<Rightarrow> bool" where
  "plain_tree d =
     (case roots d of
        None \<Rightarrow> True
      | Some rs \<Rightarrow> list_all (\<lambda>r. \<not> is_url r) rs \<and> list_all plain_node (below_roots rs))"

subsection \<open>Items whose entry cannot be created\<close>

text \<open>
  The error, if any, that the host throws on the item's path or url: a file or
  folder item with a path that \<open>vscode.Uri.file\<close> rejects, a link item with a url that
  \<open>vscode.Uri.parse\<close> rejects.
\<close>

definition thrown_for :: "Host \<Rightarrow> DockItem \<Rightarrow> string option" where
  "thrown_for h item =
     (if (type_of item = File \<or> type_of item = Folder) \<and> truthy (path item)
      then file_uri_error h (the (path item))
      else if type_of item = Link \<and> truthy (url item) then uri_error h (the (url item))
      else None)"

definition command_throws :: "Host \<Rightarrow> DockItem \<Rightarrow> bool" where
  "command_throws h item = (thrown_for h item \<noteq> None)"

subsection \<open>Example data\<close>

text \<open>
  The check of \<open>vscode.Uri.parse\<close> on the scheme, as the host has it: the scheme is
  the text before the first colon when that text is not empty and has none of
  \<open>/\<close>, \<open>?\<close>, \<open>#\<close>; it must start with a letter, a digit or an underscore and go on
  with these or \<open>+\<close>, \<open>.\<close>, \<open>-\<close>. The example host takes every path for a file; the
  examples hold no file or folder item.
\<close>

definition word_char :: "char \<Rightarrow> bool" where
  "word_char c =
     (c \<in> set ''abcdefghijklmnopqrstuvwxyzABCDEFGHIJKLMNOPQRSTUVWXYZ0123456789_'')"

definition scheme_char :: "char \<Rightarrow> bool" where
  "scheme_char c = (word_char c \<or> c \<in> set ''+.-'')"

definition uri_scheme :: "string \<Rightarrow> string option" where
  "uri_scheme s =
     (let pre = takeWhile (\<lambda>c. c \<notin> set '':/?#'') s
      in if pre \<noteq> [] \<and> take 1 (drop (length pre) s) = '':'' then Some pre else None)"

definition scheme_error :: "string \<Rightarrow> string option" where
  "scheme_error s =
     (case uri_scheme s of
        None \<Rightarrow> None
      | Some scheme \<Rightarrow>
          if word_char (hd scheme) \<and> list_all scheme_char (tl scheme) then None
          else Some ''Error: [UriError]: Scheme contains illegal characters.'')"

definition example_host :: Host where
  "example_host =
     \<lparr>basename = (\<lambda>s. s), extname = (\<lambda>s. []), inherited_text = (\<lambda>s. s),
      uri_error = scheme_error, file_uri_error = (\<lambda>s. None)\<rparr>"

definition example_provider :: "DockItem list \<Rightarrow> DockProvider" where
  "example_provider xs =
     \<lparr>dockItems = xs, statusBarItems = [],
      config = \<lparr>items = xs, maxItems = 10, showIcons = True, showTitles = True\<rparr>,
      shown = [], uncaught = []\<rparr>"

definition example_tree :: BookmarksData where
  "example_tree =
     \<lparr>roots = Some
        [BookmarkNode ''folder'' ''Bookmarks bar'' None (Some
           [BookmarkNode ''url'' ''A'' (Some ''https://a.test'') None,
            BookmarkNode ''folder'' ''Work'' None (Some
              [BookmarkNode ''url'' ''B'' (Some ''https://b.test'') None,
               BookmarkNode ''folder'' ''Deep'' None (Some
                 [BookmarkNode ''url'' ''C'' (Some ''https://c.test'') None])]),
            BookmarkNode ''url'' ''D'' (Some ''https://d.test'') None]),
         BookmarkNode ''folder'' ''Other'' None (Some [])]\<rparr>"

definition empty_tree :: BookmarksData where
  "empty_tree =
     \<lparr>roots = Some
        [BookmarkNode ''folder'' ''Bookmarks bar'' None (Some
           [BookmarkNode ''folder'' ''Work'' None (Some
              [BookmarkNode ''folder'' ''Deep'' None (Some [])])]),
         BookmarkNode ''folder'' ''Other'' None None]\<rparr>"

definition nested_url_tree :: BookmarksData where
  "nested_url_tree =
     \<lparr>roots = Some
        [BookmarkNode ''folder'' ''Bookmarks bar'' None (Some
           [BookmarkNode ''url'' ''U'' (Some ''https://u.test'') (Some
              [BookmarkNode ''url'' ''V'' (Some ''https://v.test'') None])])]\<rparr>"

subsection \<open>Where an id comes from\<close>

text \<open>
  An id of an item is a seeded id (one of the default items' ids), an id generated
  by an add dialog for a type at a clock reading, or an id generated by the import
  at a clock reading with a random rendering. \<open>id_from\<close> is the string the source's
  template literal gives.
\<close>

datatype id_origin = Seeded string | Generated item_type nat | Imported nat string






text \<open>The children of an item, none when the field is absent.\<close>

definition child_list :: "DockItem \<Rightarrow> DockItem list" where
  "child_list item = (case children item of None \<Rightarrow> [] | Some cs \<Rightarrow> cs)"

subsection \<open>More example data\<close>



definition work_folder :: DockItem where
  "work_folder =
     DockItem ''folder-group-3'' FolderGroup ''Work'' (Some ''Work'') None None
       (Some ''$(folder-opened)'') None
       (Some [DockItem ''link-4'' Link ''Docs'' (Some ''Docs'') None (Some ''https://x.test'')
                (Some ''$(globe)'') None None None])
       None"

definition docs_request :: item_request where
  "docs_request = WebLink (Some ''https://y.test'') (Some ''Wiki'') None"

definition docs_link :: "nat \<Rightarrow> DockItem" where
  "docs_link now =
     DockItem (''link-'' @ string_of_nat now) Link ''Wiki'' (Some ''Wiki'') None
       (Some ''https://y.test'') (Some ''$(globe)'') None None None"


definition terminal_item :: DockItem where
  "terminal_item =
     DockItem ''terminal'' App ''Terminal'' None None None (Some ''$(terminal)'') None None
       (Some ''workbench.action.terminal.new'')"

definition extensions_item :: DockItem where
  "extensions_item =
     DockItem ''extensions'' App ''Extensions'' None None None (Some ''$(extensions)'') None None
       (Some ''workbench.view.extensions'')"

definition chrome_app :: DockItem where
  "chrome_app = DockItem ''app-5'' App ''Chrome'' (Some ''Chrome'') None None None None None None"

definition spotify_app :: DockItem where
  "spotify_app = DockItem ''app-5'' App ''Spotify'' (Some ''Spotify'') None None None None None None"

definition same_id_provider :: DockProvider where
  "same_id_provider = example_provider [terminal_item, chrome_app, spotify_app]"

text \<open>The two notices of an out-of-bounds move.\<close>

definition cannot_move :: notice where
  "cannot_move = Information ''Cannot move item in that direction.''"

definition cannot_move_in_folder :: notice where
  "cannot_move_in_folder = Information ''Cannot move item in that direction within the folder.''"

definition chrome_launcher :: DockItem where
  "chrome_launcher =
     DockItem ''app-7'' App ''Chrome'' (Some ''Chrome'') None None (Some ''$(chrome)'') None None
       (Some ''workbench.action.openChrome'')"

definition blue_group :: DockItem where
  "blue_group =
     DockItem ''folder-group-8'' FolderGroup ''Work'' (Some ''Work'') None None
       (Some ''$(folder-opened)'') (Some ''#007ACC'') (Some []) None"

text \<open>
  Two sets of answers to the prompts of \<open>editItem\<close>: every field prompt answered with
  the empty string, and every field prompt dismissed.
\<close>

definition empty_answers :: EditAnswers where
  "empty_answers =
     \<lparr>newName = Some ''Chrome'', newTitle = Some ''Chrome'', newCommand = Some [],
      newIcon = Some [], colorValue = Some [], newUrl = Some []\<rparr>"

definition dismissed_answers :: EditAnswers where
  "dismissed_answers =
     \<lparr>newName = Some ''Chrome'', newTitle = Some ''Chrome'', newCommand = None,
      newIcon = None, colorValue = None, newUrl = None\<rparr>"

text \<open>
  A link whose url starts with a space, as the add-link dialog stores it when the
  user types it so, the provider after that dialog on the default list, and a list
  of five items with the link in second place, shown two at a time.
\<close>

definition spaced_link :: DockItem where
  "spaced_link =
     DockItem ''link-5'' Link ''Docs'' (Some ''Docs'') None (Some '' https://x.test'')
       (Some ''$(globe)'') None None None"

definition spaced_link_added :: DockProvider where
  "spaced_link_added =
     addLinkItem example_host 5 (Some '' https://x.test'') (Some ''Docs'') None
       (example_provider getDefaultItems)"

definition two_of_five :: DockProvider where
  "two_of_five =
     \<lparr>dockItems = [terminal_item, spaced_link, extensions_item, chrome_app, chrome_launcher],
      statusBarItems = [],
      config = \<lparr>items = [], maxItems = 2, showIcons = True, showTitles = True\<rparr>,
      shown = [], uncaught = []\<rparr>"

definition scheme_error_text :: string where
  "scheme_error_text = ''Error: [UriError]: Scheme contains illegal characters.''"

text \<open>The child of \<open>work_folder\<close>, and a folder whose two children have the same id.\<close>

definition work_child :: DockItem where
  "work_child =
     DockItem ''link-4'' Link ''Docs'' (Some ''Docs'') None (Some ''https://x.test'')
       (Some ''$(globe)'') None None None"

definition twin_folder :: DockItem where
  "twin_folder =
     DockItem ''folder-group-3'' FolderGroup ''Apps'' (Some ''Apps'') None None
       (Some ''$(folder-opened)'') None (Some [chrome_app, spotify_app]) None"

section \<open>Properties\<close>

subsection \<open>What \<open>createDockItems\<close> leaves alone\<close>

lemma createDockItems_state:
  "dockItems (state_of (createDockItems h p)) = dockItems p"
  "config (state_of (createDockItems h p)) = config p"
  "shown (state_of (createDockItems h p)) = shown p"
  "uncaught (state_of (createDockItems h p)) = uncaught p"
  by (simp_all add: createDockItems_def Let_def split: outcome.splits)

lemma createDockItems_Returned:
  assumes "createDockItems h p = Returned q"
  shows "dockItems q = dockItems p" "config q = config p" "shown q = shown p"
  using createDockItems_state [of h p] assms by simp_all

lemma createDockItems_Threw:
  assumes "createDockItems h p = Threw e q"
  shows "dockItems q = dockItems p" "config q = config p" "shown q = shown p"
  using createDockItems_state [of h p] assms by simp_all

lemma and_then_showMessage:
  "dockItems (and_then (createDockItems h p) (showMessage m)) = dockItems p"
  "config (and_then (createDockItems h p) (showMessage m)) = config p"
  by (cases "createDockItems h p";
      simp add: and_then_def showMessage_def createDockItems_Returned createDockItems_Threw)+


text \<open>
  C7. For every prior state of the item list, \<open>clearAllItems\<close>, once the user has
  confirmed with Yes, leaves exactly the four default items terminal, explorer, git,
  extensions, in this order, as the whole list: nothing of the prior list is kept.
  The same list is what is written to the configuration.
\<close>

theorem clearAllItems_yields_defaults:
  "dockItems (clearAllItems h (Some ''Yes'') p) = getDefaultItems
   \<and> items (config (clearAllItems h (Some ''Yes'') p)) = getDefaultItems
   \<and> map id_of getDefaultItems = [''terminal'', ''explorer'', ''git'', ''extensions'']
   \<and> length getDefaultItems = 4"
  by (simp add: clearAllItems_def and_then_showMessage saveConfiguration_def
      getDefaultItems_def)

subsection \<open>The projection\<close>

text \<open>
  An item whose path or url the host does not reject gets its entry, with priority
  \<open>1000 - index\<close>; an item with a rejected path or url gets the error.
\<close>

lemma statusBarItemFor_Inr:
  "\<not> command_throws h item \<Longrightarrow>
     statusBarItemFor h cfg i item = Inr (projr (statusBarItemFor h cfg i item))"
  by (auto simp: statusBarItemFor_def itemCommand_def getCommandForItem_def command_throws_def
      thrown_for_def split: item_type.splits option.splits if_splits)

lemma statusBarItemFor_Inl:
  "command_throws h item \<Longrightarrow>
     statusBarItemFor h cfg i item = Inl (the (thrown_for h item))"
  by (auto simp: statusBarItemFor_def itemCommand_def getCommandForItem_def command_throws_def
      thrown_for_def split: item_type.splits option.splits if_splits)

lemma entry_fields:
  assumes "\<not> command_throws h item"
  shows "priority (projr (statusBarItemFor h cfg i item)) = 1000 - int i"
    and "bar_text (projr (statusBarItemFor h cfg i item)) = displayText h cfg item"
    and "tooltip (projr (statusBarItemFor h cfg i item)) = tooltipText h item"
    and "bar_command (projr (statusBarItemFor h cfg i item)) \<noteq> Some (CommandId s)"
  using assms
  by (auto simp: statusBarItemFor_def itemCommand_def getCommandForItem_def command_throws_def
      thrown_for_def split: item_type.splits option.splits if_splits)

lemma forEachItem_returns:
  "list_all (\<lambda>x. \<not> command_throws h x) xs \<Longrightarrow>
     forEachItem h cfg k xs acc
       = Returned (acc @ map (\<lambda>i. projr (statusBarItemFor h cfg (k + i) (xs ! i))) [0..<length xs])"
proof (induction xs arbitrary: k acc)
  case Nil
  show ?case by simp
next
  case (Cons x xs)
  from Cons.prems have x: "\<not> command_throws h x" and xs: "list_all (\<lambda>x. \<not> command_throws h x) xs"
    by simp_all
  obtain entry where e: "statusBarItemFor h cfg k x = Inr entry"
    using statusBarItemFor_Inr [OF x] by blast
  have "forEachItem h cfg k (x # xs) acc
      = forEachItem h cfg (Suc k) xs (acc @ [projr (statusBarItemFor h cfg k x)])"
    by (simp add: e)
  also have "\<dots> = Returned ((acc @ [projr (statusBarItemFor h cfg k x)])
      @ map (\<lambda>i. projr (statusBarItemFor h cfg (Suc k + i) (xs ! i))) [0..<length xs])"
    by (rule Cons.IH [OF xs])
  finally show ?case by (simp add: map_upt_Suc del: upt_Suc)
qed

lemma forEachItem_throws:
  "list_all (\<lambda>x. \<not> command_throws h x) pre \<Longrightarrow> command_throws h x \<Longrightarrow>
     forEachItem h cfg k (pre @ x # rest) acc
       = Threw (the (thrown_for h x))
           (acc @ map (\<lambda>i. projr (statusBarItemFor h cfg (k + i) (pre ! i))) [0..<length pre])"
proof (induction pre arbitrary: k acc)
  case Nil
  then show ?case by (simp add: statusBarItemFor_Inl)
next
  case (Cons y pre)
  from Cons.prems have y: "\<not> command_throws h y"
    and pre: "list_all (\<lambda>x. \<not> command_throws h x) pre" by simp_all
  obtain entry where e: "statusBarItemFor h cfg k y = Inr entry"
    using statusBarItemFor_Inr [OF y] by blast
  have "forEachItem h cfg k ((y # pre) @ x # rest) acc
      = forEachItem h cfg (Suc k) (pre @ x # rest) (acc @ [projr (statusBarItemFor h cfg k y)])"
    by (simp add: e)
  also have "\<dots> = Threw (the (thrown_for h x))
      ((acc @ [projr (statusBarItemFor h cfg k y)])
       @ map (\<lambda>i. projr (statusBarItemFor h cfg (Suc k + i) (pre ! i))) [0..<length pre])"
    by (rule Cons.IH [OF pre Cons.prems(2)])
  finally show ?case by (simp add: map_upt_Suc del: upt_Suc)
qed

lemma slice0_nonneg: "0 \<le> e \<Longrightarrow> slice0 xs e = take (nat e) xs"
  by (auto simp: slice0_def Let_def min_def)

text \<open>
  When none of the shown items has a rejected path or url, and \<open>maxItems\<close> is not
  negative, the entries are those of the first \<open>min maxItems length\<close> items in list
  order, followed by the add button.
\<close>

lemma createDockItems_returns:
  assumes "0 \<le> maxItems (config p)"
    and "list_all (\<lambda>x. \<not> command_throws h x) (slice0 (dockItems p) (maxItems (config p)))"
  shows "createDockItems h p
      = Returned (p\<lparr>statusBarItems :=
          map (\<lambda>i. projr (statusBarItemFor h (config p) i (dockItems p ! i)))
            [0..<min (nat (maxItems (config p))) (length (dockItems p))] @ [addButton]\<rparr>)"
proof -
  let ?n = "min (nat (maxItems (config p))) (length (dockItems p))"
  let ?xs = "slice0 (dockItems p) (maxItems (config p))"
  have len: "length ?xs = ?n" using assms(1) by (simp add: slice0_nonneg min.commute)
  have nth: "\<And>i. i < ?n \<Longrightarrow> ?xs ! i = dockItems p ! i"
    using assms(1) by (simp add: slice0_nonneg)
  have "map (\<lambda>i. projr (statusBarItemFor h (config p) (0 + i) (?xs ! i))) [0..<length ?xs]
      = map (\<lambda>i. projr (statusBarItemFor h (config p) i (dockItems p ! i))) [0..<?n]"
    by (simp add: len nth del: upt_Suc)
  with forEachItem_returns [OF assms(2), of "config p" 0 "[]"]
  show ?thesis by (simp add: createDockItems_def Let_def)
qed

text \<open>
  When one of the shown items has a rejected path or url, \<open>createDockItems\<close>
  throws: there are fewer entries than shown items and no add button.
\<close>

lemma createDockItems_throws:
  assumes "\<exists>x\<in>set (slice0 (dockItems p) (maxItems (config p))). command_throws h x"
  shows "\<exists>e q. createDockItems h p = Threw e q \<and> addButton \<notin> set (statusBarItems q)
           \<and> length (statusBarItems q) < length (slice0 (dockItems p) (maxItems (config p)))"
proof -
  let ?xs = "slice0 (dockItems p) (maxItems (config p))"
  from assms obtain pre x rest where s: "?xs = pre @ x # rest" "command_throws h x"
    "\<forall>y\<in>set pre. \<not> command_throws h y"
    using split_list_first_prop [of ?xs "command_throws h"] by blast
  from s(3) have pre: "list_all (\<lambda>x. \<not> command_throws h x) pre" by (simp add: list_all_iff)
  let ?es = "map (\<lambda>i. projr (statusBarItemFor h (config p) (0 + i) (pre ! i))) [0..<length pre]"
  have t: "forEachItem h (config p) 0 ?xs [] = Threw (the (thrown_for h x)) ([] @ ?es)"
    unfolding s(1) by (rule forEachItem_throws [OF pre s(2)])
  have "addButton \<notin> set ?es"
  proof
    assume "addButton \<in> set ?es"
    then obtain i where i: "i < length pre"
      "addButton = projr (statusBarItemFor h (config p) (0 + i) (pre ! i))" by auto
    from i(1) s(3) have "\<not> command_throws h (pre ! i)" by simp
    then have "bar_command (projr (statusBarItemFor h (config p) (0 + i) (pre ! i)))
        \<noteq> Some (CommandId ''vscode-dock.addItem'')"
      by (rule entry_fields(4))
    moreover have "bar_command addButton = Some (CommandId ''vscode-dock.addItem'')"
      by (simp add: addButton_def)
    ultimately show False using i(2) by simp
  qed
  moreover have "length ?es < length ?xs" by (simp add: s(1))
  ultimately show ?thesis using t by (simp add: createDockItems_def Let_def)
qed

text \<open>
  The add button has priority 500: an entry past position 500 has a lower priority
  and is placed after it.
\<close>

lemma late_entry_priority:
  assumes "\<not> command_throws h item" "500 < i"
  shows "priority (projr (statusBarItemFor h cfg i item)) < priority addButton"
  using entry_fields(1) [OF assms(1), of cfg i] assms(2) by (simp add: addButton_def)

text \<open>
  C6. After the add-link dialog has been answered with the url \<open> https://x.test\<close>,
  with a space in front, on the default list, the list has five items and
  \<open>maxItems\<close> is 10, but \<open>createDockItems\<close> has thrown at the link: there are the
  four entries of the default items and no add button, where five entries and the
  add button are expected. With \<open>maxItems = 2\<close> on a list of five items whose second
  item is that link, \<open>createDockItems\<close> throws after the first entry: one entry and
  no add button, where two entries and the add button are expected.
\<close>

theorem createDockItems_rejected_url:
  "dockItems spaced_link_added = getDefaultItems @ [spaced_link]
   \<and> maxItems (config spaced_link_added) = 10
   \<and> map bar_text (statusBarItems spaced_link_added)
       = [''$(terminal) Terminal'', ''$(files) Explorer'', ''$(git-branch) Git'',
          ''$(extensions) Extensions'']
   \<and> addButton \<notin> set (statusBarItems spaced_link_added)
   \<and> uncaught spaced_link_added = [scheme_error_text]
   \<and> length (dockItems two_of_five) = 5 \<and> maxItems (config two_of_five) = 2
   \<and> createDockItems example_host two_of_five
       = Threw scheme_error_text
           (two_of_five\<lparr>statusBarItems :=
              [\<lparr>priority = 1000, bar_text = ''$(terminal) Terminal'', tooltip = ''Terminal'',
                bar_command = Some (Command ''workbench.action.terminal.new'' ''Terminal'' [])\<rparr>]\<rparr>)"
proof -
  have e: "scheme_error '' https://x.test'' = Some scheme_error_text"
    by (simp add: scheme_error_def uri_scheme_def word_char_def scheme_error_text_def)
  have a: "spaced_link_added
      = and_then (createDockItems example_host
          (saveConfiguration
             ((example_provider getDefaultItems)\<lparr>dockItems := getDefaultItems @ [spaced_link]\<rparr>)))
          (\<lambda>q. q)"
    by (simp add: spaced_link_added_def addLinkItem_def pushItem_def createLinkItem_def truthy_def
        or_else_def spaced_link_def example_provider_def string_of_nat.simps [of 5]
        digit_char_def)
  have u: "utf16_length ''Terminal'' = 8" "utf16_length ''Explorer'' = 8"
    "utf16_length ''Git'' = 3" "utf16_length ''Extensions'' = 10"
    by (simp_all add: utf16_length_def utf16_units_def)
  have c: "createDockItems example_host
          (saveConfiguration
             ((example_provider getDefaultItems)\<lparr>dockItems := getDefaultItems @ [spaced_link]\<rparr>))
      = Threw scheme_error_text
          ((saveConfiguration
             ((example_provider getDefaultItems)\<lparr>dockItems := getDefaultItems @ [spaced_link]\<rparr>))
           \<lparr>statusBarItems :=
              [\<lparr>priority = 1000, bar_text = ''$(terminal) Terminal'', tooltip = ''Terminal'',
                bar_command = Some (Command ''workbench.action.terminal.new'' ''Terminal'' [])\<rparr>,
               \<lparr>priority = 999, bar_text = ''$(files) Explorer'', tooltip = ''Explorer'',
                bar_command = Some (Command ''workbench.view.explorer'' ''Explorer'' [])\<rparr>,
               \<lparr>priority = 998, bar_text = ''$(git-branch) Git'', tooltip = ''Git'',
                bar_command = Some (Command ''workbench.view.scm'' ''Git'' [])\<rparr>,
               \<lparr>priority = 997, bar_text = ''$(extensions) Extensions'', tooltip = ''Extensions'',
                bar_command = Some (Command ''workbench.view.extensions'' ''Extensions'' [])\<rparr>]\<rparr>)"
    by (simp add: createDockItems_def slice0_def saveConfiguration_def example_provider_def
        getDefaultItems_def spaced_link_def statusBarItemFor_def itemCommand_def
        getCommandForItem_def truthy_def or_else_def displayText_def tooltipText_def
        example_host_def e u)
  have t: "createDockItems example_host two_of_five
       = Threw scheme_error_text
           (two_of_five\<lparr>statusBarItems :=
              [\<lparr>priority = 1000, bar_text = ''$(terminal) Terminal'', tooltip = ''Terminal'',
                bar_command = Some (Command ''workbench.action.terminal.new'' ''Terminal'' [])\<rparr>]\<rparr>)"
    by (simp add: createDockItems_def slice0_def two_of_five_def terminal_item_def
        spaced_link_def statusBarItemFor_def itemCommand_def
        getCommandForItem_def truthy_def or_else_def displayText_def tooltipText_def
        example_host_def e u)
  have l: "length (dockItems two_of_five) = 5" "maxItems (config two_of_five) = 2"
    by (simp_all add: two_of_five_def)
  show ?thesis
    unfolding a c using t l
    by (simp add: and_then_def saveConfiguration_def example_provider_def addButton_def)
qed

subsection \<open>Colour lookup\<close>

lemma getColorIcon_fallback:
  "c \<notin> fst ` set colorMap \<Longrightarrow> c \<notin> set Object_prototype_keys \<Longrightarrow>
     getColorIcon c = JString white_circle"
  by (simp add: getColorIcon_def get_property_def property_or_def
      map_of_eq_None_iff [THEN iffD2])

lemma getColorName_fallback:
  "c \<notin> fst ` set colorNames \<Longrightarrow> c \<notin> set Object_prototype_keys \<Longrightarrow>
     getColorName c = JString ''Custom''"
  by (simp add: getColorName_def get_property_def property_or_def
      map_of_eq_None_iff [THEN iffD2])

text \<open>
  C9. The colour \<open>constructor\<close> is none of the eight colour codes. \<open>colorMap[color]\<close>
  and \<open>colorNames[color]\<close> find the member \<open>constructor\<close> that the object literal
  inherits, a function, so \<open>getColorIcon\<close> and \<open>getColorName\<close> return that function:
  not the white circle, not \<open>Custom\<close>. The entry's label and tooltip then carry the
  text of the function.
\<close>

theorem getColorIcon_inherited_key:
  "getColorIcon ''constructor'' = JInherited ''constructor''
   \<and> getColorIcon ''constructor'' \<noteq> JString white_circle
   \<and> getColorName ''constructor'' = JInherited ''constructor''
   \<and> getColorName ''constructor'' \<noteq> JString ''Custom''
   \<and> ''constructor'' \<notin> fst ` set colorMap"
  by (simp add: getColorIcon_def getColorName_def get_property_def property_or_def
      colorMap_def colorNames_def Object_prototype_keys_def)

subsection \<open>Importing bookmarks\<close>

lemma parse_node_info:
  "map item_info (parseBookmarkNode clock random n acc) = map item_info acc @ map node_info (imported_from n)"
  "map item_info (parseBookmarkNodes clock random ns acc) = map item_info acc @ map node_info (imported_from_list ns)"
  by (induction clock random n acc and clock random ns acc rule: parseBookmarkNode_parseBookmarkNodes.induct)
     (auto simp: item_info_def node_info_def split: option.splits)


lemma parseRoots_info:
  "map item_info (parseRoots clock random rs acc) = map item_info acc @ map node_info (imported_from_roots rs)"
  by (induction rs arbitrary: acc) (auto simp: parse_node_info split: option.splits)

lemma parseChromeBookmarks_info:
  "map item_info (parseChromeBookmarks clock random d) = map node_info (imported_nodes d)"
  by (simp add: parseChromeBookmarks_def imported_nodes_def parseRoots_info split: option.splits)

lemma imported_subseq:
  "subseq (imported_from n) (filter is_url (preorder n))"
  "subseq (imported_from_list ns) (filter is_url (preorder_list ns))"
  by (induction n and ns rule: imported_from_imported_from_list.induct)
     (auto simp: is_url_def split: option.splits intro: list_emb_append_mono)

lemma imported_roots_subseq:
  "subseq (imported_from_roots rs) (filter is_url (preorder_list rs))"
proof (induction rs)
  case Nil
  show ?case by simp
next
  case (Cons r rs)
  obtain ty nm u ch where r: "r = BookmarkNode ty nm u ch" by (cases r)
  have "subseq (case ch of None \<Rightarrow> [] | Some cs \<Rightarrow> imported_from_list cs)
          (filter is_url (preorder r))"
    by (cases ch) (auto simp: r intro: imported_subseq(2) subseq_Cons')
  with Cons show ?case by (simp add: r list_emb_append_mono del: preorder.simps)
qed

lemma imported_nodes_subseq: "subseq (imported_nodes d) (filter is_url (tree_nodes d))"
  by (simp add: imported_nodes_def tree_nodes_def imported_roots_subseq split: option.splits)

lemma imported_plain:
  "list_all plain_node (preorder n) \<Longrightarrow>
     imported_from n = filter (\<lambda>n. is_url n \<and> is_leaf n) (preorder n)"
  "list_all plain_node (preorder_list ns) \<Longrightarrow>
     imported_from_list ns = filter (\<lambda>n. is_url n \<and> is_leaf n) (preorder_list ns)"
  by (induction n and ns rule: imported_from_imported_from_list.induct)
     (auto simp: plain_node_def is_url_def is_leaf_def split: option.splits)

lemma imported_roots_plain:
  "list_all (\<lambda>r. \<not> is_url r) rs \<Longrightarrow> list_all plain_node (below_roots rs) \<Longrightarrow>
     imported_from_roots rs = filter (\<lambda>n. is_url n \<and> is_leaf n) (preorder_list rs)"
proof (induction rs)
  case Nil
  show ?case by simp
next
  case (Cons r rs)
  obtain ty nm u ch where r: "r = BookmarkNode ty nm u ch" by (cases r)
  from Cons.prems have nu: "\<not> is_url r" and rest: "list_all (\<lambda>r. \<not> is_url r) rs"
    and here: "list_all plain_node (case ch of None \<Rightarrow> [] | Some cs \<Rightarrow> preorder_list cs)"
    and below: "list_all plain_node (below_roots rs)"
    by (simp_all add: below_roots_def r)
  have "(case ch of None \<Rightarrow> [] | Some cs \<Rightarrow> imported_from_list cs)
        = filter (\<lambda>n. is_url n \<and> is_leaf n) (preorder r)"
    using nu here by (cases ch) (simp_all add: r imported_plain(2))
  with Cons.IH [OF rest below] show ?case by (simp add: r del: preorder.simps)
qed

lemma imported_nodes_plain: "plain_tree d \<Longrightarrow> imported_nodes d = url_leaves d"
  by (auto simp: plain_tree_def imported_nodes_def url_leaves_def tree_nodes_def
      imported_roots_plain split: option.splits)

lemma no_url_nothing_imported:
  assumes "filter is_url (tree_nodes d) = []"
  shows "parseChromeBookmarks clock random d = []"
proof -
  from imported_nodes_subseq [of d] assms have "imported_nodes d = []" by simp
  with parseChromeBookmarks_info [of clock random d] show ?thesis by simp
qed

lemma parse_node_links:
  "list_all (\<lambda>i. type_of i = Link \<and> children i = None) acc \<Longrightarrow>
     list_all (\<lambda>i. type_of i = Link \<and> children i = None) (parseBookmarkNode clock random n acc)"
  "list_all (\<lambda>i. type_of i = Link \<and> children i = None) acc \<Longrightarrow>
     list_all (\<lambda>i. type_of i = Link \<and> children i = None) (parseBookmarkNodes clock random ns acc)"
  by (induction clock random n acc and clock random ns acc
      rule: parseBookmarkNode_parseBookmarkNodes.induct)
     (auto split: option.splits)

lemma parseRoots_links:
  "list_all (\<lambda>i. type_of i = Link \<and> children i = None) acc \<Longrightarrow>
     list_all (\<lambda>i. type_of i = Link \<and> children i = None) (parseRoots clock random rs acc)"
  by (induction rs arbitrary: acc) (auto simp: parse_node_links split: option.splits)

lemma parseChromeBookmarks_links:
  "list_all (\<lambda>i. type_of i = Link \<and> children i = None) (parseChromeBookmarks clock random d)"
  by (simp add: parseChromeBookmarks_def parseRoots_links split: option.splits)

lemma import_nothing:
  "parseChromeBookmarks clock random d = [] \<Longrightarrow>
     importChromeBookmarks h clock random (Parsed d) p
       = showMessage (Information ''No bookmarks found to import.'') p"
  by (simp add: importChromeBookmarks_def)

lemma import_dockItems:
  "dockItems (importChromeBookmarks h clock random (Parsed d) p)
     = dockItems p @ parseChromeBookmarks clock random d"
  by (simp add: importChromeBookmarks_def Let_def showMessage_def saveConfiguration_def
      createDockItems_Returned createDockItems_Threw split: outcome.splits)

text \<open>
  C8, as the code has it. For every bookmark tree without a url-typed node at any
  depth, nothing is imported: the count is 0, the user is told that no bookmarks
  were found, and the provider's item list is as before. For every tree, the
  imported items are link items without children that carry, in order, the name and
  url of exactly the nodes of \<open>imported_nodes\<close>: the url-typed nodes reached through
  folder-typed nodes with a child list, at any folder depth. For a tree as the
  browser writes it these are exactly the url-typed leaf nodes of the tree.
\<close>

theorem importChromeBookmarks_imports:
  "(filter is_url (tree_nodes d) = [] \<longrightarrow>
      length (parseChromeBookmarks clock random d) = 0
      \<and> importChromeBookmarks h clock random (Parsed d) p
          = showMessage (Information ''No bookmarks found to import.'') p
      \<and> dockItems (importChromeBookmarks h clock random (Parsed d) p) = dockItems p)
   \<and> map item_info (parseChromeBookmarks clock random d) = map node_info (imported_nodes d)
   \<and> list_all (\<lambda>i. type_of i = Link \<and> children i = None) (parseChromeBookmarks clock random d)
   \<and> (plain_tree d \<longrightarrow> imported_nodes d = url_leaves d)"
proof -
  have a: "length (parseChromeBookmarks clock random d) = 0
      \<and> importChromeBookmarks h clock random (Parsed d) p
          = showMessage (Information ''No bookmarks found to import.'') p
      \<and> dockItems (importChromeBookmarks h clock random (Parsed d) p) = dockItems p"
    if "filter is_url (tree_nodes d) = []"
  proof -
    from that have e: "parseChromeBookmarks clock random d = []"
      by (rule no_url_nothing_imported)
    then show ?thesis by (simp add: import_nothing showMessage_def)
  qed
  from a parseChromeBookmarks_info parseChromeBookmarks_links imported_nodes_plain
  show ?thesis by blast
qed

theorem importChromeBookmarks_imports_witness:
  "filter is_url (tree_nodes empty_tree) = []
   \<and> dockItems (importChromeBookmarks example_host (\<lambda>k. 5) (\<lambda>k. ''0.5'') (Parsed empty_tree)
        (example_provider getDefaultItems)) = getDefaultItems
   \<and> plain_tree example_tree
   \<and> map node_info (url_leaves example_tree)
       = [(''A'', Some ''https://a.test''), (''B'', Some ''https://b.test''),
          (''C'', Some ''https://c.test''), (''D'', Some ''https://d.test'')]
   \<and> map item_info (parseChromeBookmarks (\<lambda>k. 5) (\<lambda>k. ''0.5'') example_tree)
       = [(''A'', Some ''https://a.test''), (''B'', Some ''https://b.test''),
          (''C'', Some ''https://c.test''), (''D'', Some ''https://d.test'')]"
proof -
  have e: "filter is_url (tree_nodes empty_tree) = []"
    by (simp add: empty_tree_def tree_nodes_def is_url_def)
  have pl: "plain_tree example_tree"
    by (simp add: example_tree_def plain_tree_def below_roots_def plain_node_def is_url_def
        is_leaf_def)
  have ul: "map node_info (url_leaves example_tree)
       = [(''A'', Some ''https://a.test''), (''B'', Some ''https://b.test''),
          (''C'', Some ''https://c.test''), (''D'', Some ''https://d.test'')]"
    by (simp add: example_tree_def url_leaves_def tree_nodes_def is_url_def is_leaf_def
        node_info_def)
  from importChromeBookmarks_imports
         [of empty_tree "\<lambda>k. 5" "\<lambda>k. ''0.5''" example_host "example_provider getDefaultItems"] e
  have 1: "dockItems (importChromeBookmarks example_host (\<lambda>k. 5) (\<lambda>k. ''0.5'') (Parsed empty_tree)
        (example_provider getDefaultItems)) = getDefaultItems"
    by (simp add: example_provider_def showMessage_def)
  from importChromeBookmarks_imports
         [of example_tree "\<lambda>k. 5" "\<lambda>k. ''0.5''" example_host "example_provider getDefaultItems"] pl ul
  have 2: "map item_info (parseChromeBookmarks (\<lambda>k. 5) (\<lambda>k. ''0.5'') example_tree)
       = [(''A'', Some ''https://a.test''), (''B'', Some ''https://b.test''),
          (''C'', Some ''https://c.test''), (''D'', Some ''https://d.test'')]"
    by simp
  from e pl ul 1 2 show ?thesis by simp
qed

text \<open>
  C8 as stated fails on a url-typed node that has a url-typed child: the parent,
  not a leaf, is imported, and the child, a leaf, is not.
\<close>

theorem nested_url_counterexample:
  "map item_info (parseChromeBookmarks (\<lambda>k. 0) (\<lambda>k. ''0'') nested_url_tree)
     = [(''U'', Some ''https://u.test'')]
   \<and> map node_info (url_leaves nested_url_tree) = [(''V'', Some ''https://v.test'')]"
  by (simp add: parseChromeBookmarks_def nested_url_tree_def url_leaves_def tree_nodes_def
      item_info_def node_info_def is_url_def is_leaf_def)

text \<open>
  C10. For every bookmark file and every prior item list, \<open>importChromeBookmarks\<close>
  only appends: the new list is the prior list followed by the imported items, so
  every prior item keeps its position. The imported items carry the names and urls
  of \<open>imported_nodes\<close>, which come in the order of the depth-first pre-order
  traversal of the tree. With no file, or a file whose reading throws, the list is
  as before.
\<close>

theorem importChromeBookmarks_appends:
  "dockItems (importChromeBookmarks h clock random (Parsed d) p)
     = dockItems p @ parseChromeBookmarks clock random d
   \<and> take (length (dockItems p)) (dockItems (importChromeBookmarks h clock random (Parsed d) p))
       = dockItems p
   \<and> map item_info (parseChromeBookmarks clock random d) = map node_info (imported_nodes d)
   \<and> subseq (imported_nodes d) (tree_nodes d)
   \<and> dockItems (importChromeBookmarks h clock random NotFound p) = dockItems p
   \<and> dockItems (importChromeBookmarks h clock random (Throws e) p) = dockItems p"
proof -
  have "subseq (imported_nodes d) (tree_nodes d)"
    using imported_nodes_subseq [of d] subseq_filter_left subseq_order.order_trans by blast
  moreover have "dockItems (importChromeBookmarks h clock random NotFound p) = dockItems p"
    "dockItems (importChromeBookmarks h clock random (Throws e) p) = dockItems p"
    by (simp_all add: importChromeBookmarks_def showMessage_def)
  ultimately show ?thesis
    by (simp add: import_dockItems parseChromeBookmarks_info)
qed

subsection \<open>Decimal rendering and generated ids\<close>




lemma string_of_nat_small: "n < 10 \<Longrightarrow> string_of_nat n = [digit_char n]"
  by (subst string_of_nat.simps) simp














subsection \<open>Add operations\<close>










lemma selectors_set_children [simp]:
  "children (set_children v item) = v"
  "id_of (set_children v item) = id_of item"
  "type_of (set_children v item) = type_of item"
  "name (set_children v item) = name item"
  by (cases item; simp add: set_children_def)+

lemma nth_opt_modify_at: "nth_opt xs i = Some t \<Longrightarrow> nth_opt (modify_at i f xs) i = Some (f t)"
  by (auto simp: nth_opt_def modify_at_def split: if_splits)

lemma resolve_update_ref:
  "resolve xs r = Some t \<Longrightarrow> resolve (update_ref r f xs) r = Some (f t)"
proof (cases r)
  case (TopLevel i)
  assume "resolve xs r = Some t"
  with TopLevel show ?thesis by (simp add: nth_opt_modify_at)
next
  case (InFolder i j)
  assume a: "resolve xs r = Some t"
  with InFolder obtain folder cs where f: "nth_opt xs i = Some folder"
    "children folder = Some cs" "nth_opt cs j = Some t"
    by (auto split: option.splits)
  from f(1) have "nth_opt (update_ref r f xs) i
      = Some (set_children (map_option (modify_at j f) (children folder)) folder)"
    using InFolder by (simp add: nth_opt_modify_at)
  with f(2,3) InFolder show ?thesis by (simp add: nth_opt_modify_at)
qed


lemma dockItems_addItemToFolder:
  "resolve (dockItems p) r = Some target \<Longrightarrow> createItem h now request = Some x \<Longrightarrow>
     dockItems (addItemToFolder h now r (Some request) p)
       = update_ref r (pushChild x) (dockItems p)"
  by (simp add: addItemToFolder_def showMessage_def saveConfiguration_def)





subsection \<open>Reordering\<close>

lemma findIndex_Some_iff:
  "findIndex P xs = Some i \<longleftrightarrow> i < length xs \<and> P (xs ! i) \<and> (\<forall>j<i. \<not> P (xs ! j))"
proof (induction xs arbitrary: i)
  case Nil
  show ?case by simp
next
  case (Cons x xs)
  show ?case
  proof (cases "P x")
    case True
    then show ?thesis by (cases i) auto
  next
    case False
    show ?thesis
    proof (cases i)
      case 0
      with False show ?thesis by simp
    next
      case (Suc k)
      have "(\<forall>j<Suc k. \<not> P ((x # xs) ! j)) \<longleftrightarrow> (\<forall>j<k. \<not> P (xs ! j))"
        using False by (auto simp: less_Suc_eq_0_disj)
      with Suc False Cons.IH [of k] show ?thesis by auto
    qed
  qed
qed

lemma findIndex_distinct:
  assumes "distinct (map id_of xs)" "i < length xs"
  shows "findIndex (\<lambda>x. id_of x = id_of (xs ! i)) xs = Some i"
proof -
  have "id_of (xs ! j) \<noteq> id_of (xs ! i)" if "j < i" for j
  proof -
    from that assms(2) have "j < length (map id_of xs)" "i < length (map id_of xs)" "j \<noteq> i"
      by simp_all
    with assms(1) have "map id_of xs ! j \<noteq> map id_of xs ! i"
      by (simp add: distinct_conv_nth)
    with that assms(2) show ?thesis by simp
  qed
  with assms(2) show ?thesis by (simp add: findIndex_Some_iff)
qed

lemma swap_back: "i < length xs \<Longrightarrow> j < length xs \<Longrightarrow> swap j i (swap i j xs) = xs"
  by (rule nth_equalityI) (auto simp: swap_def nth_list_update)

lemma length_swap [simp]: "length (swap i j xs) = length xs"
  by (simp add: swap_def)

lemma dockItems_moveItem_in_bounds:
  assumes "findIndex (\<lambda>x. id_of x = id_of item) (dockItems p) = Some i"
    and "0 \<le> int i + direction" "int i + direction < int (length (dockItems p))"
  shows "dockItems (moveItem h item direction p) = swap i (nat (int i + direction)) (dockItems p)"
  using assms
  by (simp add: moveItem_def Let_def and_then_showMessage saveConfiguration_def)

lemma moveItem_out_of_bounds:
  assumes "findIndex (\<lambda>x. id_of x = id_of item) (dockItems p) = Some i"
    and "int i + direction < 0 \<or> int (length (dockItems p)) \<le> int i + direction"
  shows "moveItem h item direction p = showMessage cannot_move p"
  using assms by (auto simp: moveItem_def Let_def cannot_move_def)

lemma moveItemInFolder_out_of_bounds:
  assumes "resolve (dockItems p) folder = Some f" "children f = Some cs"
    and "findIndex (\<lambda>c. id_of c = id_of item) cs = Some i"
    and "int i + direction < 0 \<or> int (length cs) \<le> int i + direction"
  shows "moveItemInFolder h item folder direction p = showMessage cannot_move_in_folder p"
  using assms by (auto simp: moveItemInFolder_def Let_def cannot_move_in_folder_def)

text \<open>
  C5, as the code has it. \<open>moveItem\<close> finds the item by its id. For every item at
  index \<open>i\<close> of the list such that no item before it has the same id (so for every
  item when ids are unique, and always at index 0): when \<open>i + direction\<close> is below 0
  or not below the length of the list (for the directions \<open>-1\<close> and \<open>+1\<close> in
  particular), \<open>moveItem\<close> shows the notice that the item cannot be moved and does
  nothing else: the provider, and so the item list, is as before but for the
  notice. \<open>moveItemInFolder\<close> does the same with the children of the folder and
  its own notice.
\<close>

theorem move_out_of_bounds:
  "(i < length (dockItems p) \<and> dockItems p ! i = item
      \<and> (\<forall>j<i. id_of (dockItems p ! j) \<noteq> id_of item)
      \<and> (int i + direction < 0 \<or> int (length (dockItems p)) \<le> int i + direction)
    \<longrightarrow> moveItem h item direction p = showMessage cannot_move p
        \<and> dockItems (moveItem h item direction p) = dockItems p
        \<and> shown (moveItem h item direction p) = shown p @ [cannot_move])
   \<and> (resolve (dockItems p) folder = Some f \<and> children f = Some cs
      \<and> i < length cs \<and> cs ! i = item \<and> (\<forall>j<i. id_of (cs ! j) \<noteq> id_of item)
      \<and> (int i + direction < 0 \<or> int (length cs) \<le> int i + direction)
    \<longrightarrow> moveItemInFolder h item folder direction p = showMessage cannot_move_in_folder p
        \<and> dockItems (moveItemInFolder h item folder direction p) = dockItems p
        \<and> shown (moveItemInFolder h item folder direction p) = shown p @ [cannot_move_in_folder])"
proof (intro conjI impI)
  assume a: "i < length (dockItems p) \<and> dockItems p ! i = item
      \<and> (\<forall>j<i. id_of (dockItems p ! j) \<noteq> id_of item)
      \<and> (int i + direction < 0 \<or> int (length (dockItems p)) \<le> int i + direction)"
  then have "findIndex (\<lambda>x. id_of x = id_of item) (dockItems p) = Some i"
    by (simp add: findIndex_Some_iff)
  moreover from a
  have "int i + direction < 0 \<or> int (length (dockItems p)) \<le> int i + direction"
    by blast
  ultimately have m: "moveItem h item direction p = showMessage cannot_move p"
    by (rule moveItem_out_of_bounds)
  then show "moveItem h item direction p = showMessage cannot_move p" .
  from m show "dockItems (moveItem h item direction p) = dockItems p"
    by (simp add: showMessage_def)
  from m show "shown (moveItem h item direction p) = shown p @ [cannot_move]"
    by (simp add: showMessage_def)
next
  assume a: "resolve (dockItems p) folder = Some f \<and> children f = Some cs
      \<and> i < length cs \<and> cs ! i = item \<and> (\<forall>j<i. id_of (cs ! j) \<noteq> id_of item)
      \<and> (int i + direction < 0 \<or> int (length cs) \<le> int i + direction)"
  then have "resolve (dockItems p) folder = Some f" and "children f = Some cs" by blast+
  moreover from a have "findIndex (\<lambda>c. id_of c = id_of item) cs = Some i"
    by (simp add: findIndex_Some_iff)
  moreover from a have "int i + direction < 0 \<or> int (length cs) \<le> int i + direction"
    by blast
  ultimately
  have m: "moveItemInFolder h item folder direction p = showMessage cannot_move_in_folder p"
    by (rule moveItemInFolder_out_of_bounds)
  then show "moveItemInFolder h item folder direction p = showMessage cannot_move_in_folder p" .
  from m show "dockItems (moveItemInFolder h item folder direction p) = dockItems p"
    by (simp add: showMessage_def)
  from m show "shown (moveItemInFolder h item folder direction p)
      = shown p @ [cannot_move_in_folder]"
    by (simp add: showMessage_def)
qed

theorem move_out_of_bounds_witness:
  "dockItems (example_provider getDefaultItems) ! 0 = terminal_item
   \<and> moveItem example_host terminal_item (- 1) (example_provider getDefaultItems)
       = showMessage cannot_move (example_provider getDefaultItems)
   \<and> dockItems (example_provider getDefaultItems) ! 3 = extensions_item
   \<and> length (dockItems (example_provider getDefaultItems)) = 4
   \<and> dockItems (moveItem example_host extensions_item 1 (example_provider getDefaultItems))
       = getDefaultItems
   \<and> shown (moveItem example_host extensions_item 1 (example_provider getDefaultItems))
       = [cannot_move]
   \<and> child_list work_folder = [work_child]
   \<and> dockItems (moveItemInFolder example_host (work_child) (TopLevel 0) 1
        (example_provider [work_folder])) = [work_folder]
   \<and> shown (moveItemInFolder example_host (work_child) (TopLevel 0) (- 1)
        (example_provider [work_folder])) = [cannot_move_in_folder]"
proof -
  note sn = string_of_nat_small digit_char_def
  have dp: "dockItems (example_provider getDefaultItems) = getDefaultItems"
    "shown (example_provider getDefaultItems) = []"
    "dockItems (example_provider [work_folder]) = [work_folder]"
    "shown (example_provider [work_folder]) = []"
    by (simp_all add: example_provider_def)
  have t: "0 < length (dockItems (example_provider getDefaultItems))"
    "dockItems (example_provider getDefaultItems) ! 0 = terminal_item"
    "\<forall>j<0. id_of (dockItems (example_provider getDefaultItems) ! j) \<noteq> id_of terminal_item"
    "int 0 + - 1 < 0 \<or> int (length (dockItems (example_provider getDefaultItems))) \<le> int 0 + - 1"
    unfolding dp by (simp_all add: getDefaultItems_def terminal_item_def)
  have e: "3 < length (dockItems (example_provider getDefaultItems))"
    "dockItems (example_provider getDefaultItems) ! 3 = extensions_item"
    "\<forall>j<3. id_of (dockItems (example_provider getDefaultItems) ! j) \<noteq> id_of extensions_item"
    "int 3 + 1 < 0 \<or> int (length (dockItems (example_provider getDefaultItems))) \<le> int 3 + 1"
    "length (dockItems (example_provider getDefaultItems)) = 4"
    unfolding dp
    by (simp_all add: getDefaultItems_def extensions_item_def less_Suc_eq numeral_3_eq_3)
  have f: "resolve (dockItems (example_provider [work_folder])) (TopLevel 0) = Some work_folder"
    "children work_folder = Some [work_child]"
    "0 < length [work_child]" "[work_child] ! 0 = work_child"
    "\<forall>j<0. id_of ([work_child] ! j) \<noteq> id_of (work_child)"
    "child_list work_folder = [work_child]"
    unfolding dp
    by (simp_all add: nth_opt_def work_folder_def work_child_def child_list_def sn)
  from move_out_of_bounds
         [where item = terminal_item and p = "example_provider getDefaultItems" and i = 0
            and direction = "- 1" and h = example_host] t
  have 1: "moveItem example_host terminal_item (- 1) (example_provider getDefaultItems)
       = showMessage cannot_move (example_provider getDefaultItems)"
    by blast
  from move_out_of_bounds
         [where item = extensions_item and p = "example_provider getDefaultItems" and i = 3
            and direction = 1 and h = example_host] e(1-4)
  have 2: "dockItems (moveItem example_host extensions_item 1 (example_provider getDefaultItems))
       = dockItems (example_provider getDefaultItems)"
    "shown (moveItem example_host extensions_item 1 (example_provider getDefaultItems))
       = shown (example_provider getDefaultItems) @ [cannot_move]"
    by blast+
  from move_out_of_bounds
         [where item = "work_child" and p = "example_provider [work_folder]" and i = 0
            and direction = 1 and h = example_host and folder = "TopLevel 0"
            and f = work_folder and cs = "[work_child]"] f(1-5)
  have 3: "dockItems (moveItemInFolder example_host (work_child) (TopLevel 0) 1
        (example_provider [work_folder])) = dockItems (example_provider [work_folder])"
    by (simp add: showMessage_def)
  from move_out_of_bounds
         [where item = "work_child" and p = "example_provider [work_folder]" and i = 0
            and direction = "- 1" and h = example_host and folder = "TopLevel 0"
            and f = work_folder and cs = "[work_child]"] f(1-5)
  have 4: "shown (moveItemInFolder example_host (work_child) (TopLevel 0) (- 1)
        (example_provider [work_folder])) = shown (example_provider [work_folder])
          @ [cannot_move_in_folder]"
    by (simp add: showMessage_def)
  from t(2) e(2,5) f(6) 1 2 3 4 show ?thesis by (simp add: dp)
qed

text \<open>
  C5 as stated fails for the last item of a list when an item before it has the same
  id: moving it by \<open>+1\<close> would leave the list, but \<open>moveItem\<close> finds the earlier item,
  swaps that one with its neighbour and reports success. The same holds for the
  children of a folder.
\<close>

theorem move_last_same_id_counterexample:
  "dockItems same_id_provider = [terminal_item, chrome_app, spotify_app]
   \<and> dockItems (moveItem example_host spotify_app 1 same_id_provider)
       = [terminal_item, spotify_app, chrome_app]
   \<and> cannot_move \<notin> set (shown (moveItem example_host spotify_app 1 same_id_provider))
   \<and> dockItems (moveItem example_host spotify_app 1 same_id_provider)
       \<noteq> dockItems same_id_provider
   \<and> children twin_folder = Some [chrome_app, spotify_app]
   \<and> map children (dockItems (moveItemInFolder example_host spotify_app (TopLevel 0) 1
        (example_provider [twin_folder]))) = [Some [spotify_app, chrome_app]]
   \<and> cannot_move_in_folder \<notin> set (shown (moveItemInFolder example_host spotify_app
        (TopLevel 0) 1 (example_provider [twin_folder])))"
  by (simp add: same_id_provider_def example_provider_def moveItem_def moveItemInFolder_def
      Let_def swap_def nth_opt_def modify_at_def twin_folder_def
      showMessage_def and_then_def createDockItems_def slice0_def statusBarItemFor_def
      itemCommand_def getCommandForItem_def truthy_def saveConfiguration_def cannot_move_def
      cannot_move_in_folder_def chrome_app_def spotify_app_def terminal_item_def)

text \<open>
  C4, as the code has it. \<open>moveItem\<close> finds the item by its id. When the id first
  occurs at index \<open>i\<close>, the index \<open>i + 1\<close> is in the list, and the item at \<open>i + 1\<close>
  has another id (so whenever the ids of the list are unique), moving the item by
  \<open>+1\<close> swaps the two and moving it by \<open>-1\<close> then restores the list.
\<close>

theorem moveItem_down_then_up:
  assumes "findIndex (\<lambda>x. id_of x = id_of item) (dockItems p) = Some i"
    and "i + 1 < length (dockItems p)"
    and "id_of (dockItems p ! (i + 1)) \<noteq> id_of item"
  shows "dockItems (moveItem h item 1 p) = swap i (i + 1) (dockItems p)
         \<and> dockItems (moveItem h item (- 1) (moveItem h item 1 p)) = dockItems p"
proof -
  let ?xs = "dockItems p"
  let ?P = "\<lambda>x. id_of x = id_of item"
  from assms(1) have i: "i < length ?xs" "?P (?xs ! i)" "\<forall>j<i. \<not> ?P (?xs ! j)"
    by (simp_all add: findIndex_Some_iff)
  have down: "dockItems (moveItem h item 1 p) = swap i (i + 1) ?xs"
    using dockItems_moveItem_in_bounds [OF assms(1), of 1 h] assms(2)
    by (simp add: nat_add_distrib)
  have "findIndex ?P (swap i (i + 1) ?xs) = Some (i + 1)"
    unfolding findIndex_Some_iff
  proof (intro conjI allI impI)
    show "i + 1 < length (swap i (i + 1) ?xs)" using assms(2) by simp
    show "?P (swap i (i + 1) ?xs ! (i + 1))" using i assms(2) by (simp add: swap_def)
    fix j assume "j < i + 1"
    then consider "j < i" | "j = i" by linarith
    then show "\<not> ?P (swap i (i + 1) ?xs ! j)"
    proof cases
      case 1
      with i assms(2) show ?thesis by (simp add: swap_def)
    next
      case 2
      with i assms(2,3) show ?thesis by (simp add: swap_def)
    qed
  qed
  then have f: "findIndex ?P (dockItems (moveItem h item 1 p)) = Some (i + 1)"
    by (simp only: down)
  have "dockItems (moveItem h item (- 1) (moveItem h item 1 p))
      = swap (i + 1) (nat (int (i + 1) + - 1)) (dockItems (moveItem h item 1 p))"
    using assms(2) by (intro dockItems_moveItem_in_bounds [OF f]) (simp_all add: down)
  also have "\<dots> = swap (i + 1) i (swap i (i + 1) ?xs)" by (simp add: down)
  also have "\<dots> = ?xs" using i(1) assms(2) by (rule swap_back)
  finally show ?thesis using down by simp
qed

theorem moveItem_down_then_up_witness:
  "findIndex (\<lambda>x. id_of x = id_of terminal_item) (dockItems (example_provider getDefaultItems))
     = Some 0
   \<and> 0 + 1 < length (dockItems (example_provider getDefaultItems))
   \<and> id_of (dockItems (example_provider getDefaultItems) ! (0 + 1)) \<noteq> id_of terminal_item
   \<and> map id_of (dockItems (moveItem example_host terminal_item 1
        (example_provider getDefaultItems))) = [''explorer'', ''terminal'', ''git'', ''extensions'']
   \<and> dockItems (moveItem example_host terminal_item (- 1)
        (moveItem example_host terminal_item 1 (example_provider getDefaultItems)))
       = getDefaultItems"
proof -
  have h: "findIndex (\<lambda>x. id_of x = id_of terminal_item)
             (dockItems (example_provider getDefaultItems)) = Some 0"
    "0 + 1 < length (dockItems (example_provider getDefaultItems))"
    "id_of (dockItems (example_provider getDefaultItems) ! (0 + 1)) \<noteq> id_of terminal_item"
    by (simp_all add: example_provider_def getDefaultItems_def terminal_item_def)
  from moveItem_down_then_up [OF h, of example_host] h show ?thesis
    by (simp add: example_provider_def getDefaultItems_def swap_def)
qed

text \<open>
  C4 as stated fails on a list in which the item and its right neighbour have the
  same id: both moves are in bounds and performed, and the second one moves the
  former neighbour, not the item.
\<close>

theorem moveItem_same_id_counterexample:
  "findIndex (\<lambda>x. id_of x = id_of chrome_app) (dockItems same_id_provider) = Some 1
   \<and> dockItems same_id_provider = [terminal_item, chrome_app, spotify_app]
   \<and> dockItems (moveItem example_host chrome_app 1 same_id_provider)
       = [terminal_item, spotify_app, chrome_app]
   \<and> cannot_move \<notin> set (shown (moveItem example_host chrome_app (- 1)
        (moveItem example_host chrome_app 1 same_id_provider)))
   \<and> dockItems (moveItem example_host chrome_app (- 1)
        (moveItem example_host chrome_app 1 same_id_provider))
       = [spotify_app, terminal_item, chrome_app]
   \<and> dockItems (moveItem example_host chrome_app (- 1)
        (moveItem example_host chrome_app 1 same_id_provider)) \<noteq> dockItems same_id_provider"
  by (simp add: same_id_provider_def example_provider_def moveItem_def Let_def swap_def
      showMessage_def and_then_def createDockItems_def slice0_def statusBarItemFor_def
      itemCommand_def getCommandForItem_def truthy_def saveConfiguration_def cannot_move_def
      chrome_app_def spotify_app_def terminal_item_def)

subsection \<open>Editing\<close>

lemma selectors_set_name [simp]:
  "id_of (set_name v item) = id_of item" "type_of (set_name v item) = type_of item"
  "name (set_name v item) = v" "title (set_name v item) = title item"
  "path (set_name v item) = path item" "url (set_name v item) = url item"
  "icon (set_name v item) = icon item" "color (set_name v item) = color item"
  "children (set_name v item) = children item" "command (set_name v item) = command item"
  by (cases item; simp add: set_name_def)+

lemma selectors_set_title [simp]:
  "id_of (set_title v item) = id_of item" "type_of (set_title v item) = type_of item"
  "name (set_title v item) = name item" "title (set_title v item) = v"
  "path (set_title v item) = path item" "url (set_title v item) = url item"
  "icon (set_title v item) = icon item" "color (set_title v item) = color item"
  "children (set_title v item) = children item" "command (set_title v item) = command item"
  by (cases item; simp add: set_title_def)+

lemma selectors_set_url [simp]:
  "id_of (set_url v item) = id_of item" "type_of (set_url v item) = type_of item"
  "name (set_url v item) = name item" "title (set_url v item) = title item"
  "path (set_url v item) = path item" "url (set_url v item) = v"
  "icon (set_url v item) = icon item" "color (set_url v item) = color item"
  "children (set_url v item) = children item" "command (set_url v item) = command item"
  by (cases item; simp add: set_url_def)+

lemma selectors_set_icon [simp]:
  "id_of (set_icon v item) = id_of item" "type_of (set_icon v item) = type_of item"
  "name (set_icon v item) = name item" "title (set_icon v item) = title item"
  "path (set_icon v item) = path item" "url (set_icon v item) = url item"
  "icon (set_icon v item) = v" "color (set_icon v item) = color item"
  "children (set_icon v item) = children item" "command (set_icon v item) = command item"
  by (cases item; simp add: set_icon_def)+

lemma selectors_set_color [simp]:
  "id_of (set_color v item) = id_of item" "type_of (set_color v item) = type_of item"
  "name (set_color v item) = name item" "title (set_color v item) = title item"
  "path (set_color v item) = path item" "url (set_color v item) = url item"
  "icon (set_color v item) = icon item" "color (set_color v item) = v"
  "children (set_color v item) = children item" "command (set_color v item) = command item"
  by (cases item; simp add: set_color_def)+

lemma selectors_set_command [simp]:
  "id_of (set_command v item) = id_of item" "type_of (set_command v item) = type_of item"
  "name (set_command v item) = name item" "title (set_command v item) = title item"
  "path (set_command v item) = path item" "url (set_command v item) = url item"
  "icon (set_command v item) = icon item" "color (set_command v item) = color item"
  "children (set_command v item) = children item" "command (set_command v item) = v"
  by (cases item; simp add: set_command_def)+

lemma editFields_Some_iff:
  "(\<exists>item'. editFields item a = Some item') \<longleftrightarrow> newName a \<noteq> None \<and> newTitle a \<noteq> None"
  by (simp add: editFields_def Let_def)

lemma editFields_command:
  "editFields item a = Some item' \<Longrightarrow>
     command item' = (if type_of item = App \<and> newCommand a \<noteq> None
                      then newCommand a else command item)"
  by (auto simp: editFields_def Let_def split: if_splits option.splits)

lemma editFields_icon:
  "editFields item a = Some item' \<Longrightarrow>
     icon item' = (if type_of item = App \<and> newIcon a \<noteq> None then newIcon a else icon item)"
  by (auto simp: editFields_def Let_def split: if_splits option.splits)

lemma editFields_color:
  "editFields item a = Some item' \<Longrightarrow>
     color item' = (if type_of item = FolderGroup
                    then (case colorValue a of
                            None \<Rightarrow> color item
                          | Some v \<Rightarrow> if v = [] then None else Some v)
                    else color item)"
  by (auto simp: editFields_def Let_def split: if_splits option.splits)

lemma editFields_url:
  "editFields item a = Some item' \<Longrightarrow>
     url item' = (if type_of item = Link \<and> newUrl a \<noteq> None then newUrl a else url item)"
  by (auto simp: editFields_def Let_def split: if_splits option.splits)

lemma dockItems_editItem:
  "resolve (dockItems p) r = Some item \<Longrightarrow> editFields item a = Some item' \<Longrightarrow>
     dockItems (editItem h r a p) = update_ref r (\<lambda>_. item') (dockItems p)"
  by (simp add: editItem_def and_then_showMessage saveConfiguration_def)

text \<open>
  C1, as the code has it. For every item and every edit that is not cancelled at the
  name or the title prompt, a field of the item's type keeps its value when its
  prompt is dismissed and takes the answer otherwise, the empty string included:
  the command and the icon of an app, the url of a link. For a folder-group, the
  colour entry Default (the empty value) clears the colour and any other entry
  stores its value. A field that does not belong to the item's type is not asked
  for and stays.
\<close>

theorem editItem_writes_defined_values:
  "resolve (dockItems p) r = Some item \<and> newName a \<noteq> None \<and> newTitle a \<noteq> None
   \<longrightarrow> (\<exists>item'. resolve (dockItems (editItem h r a p)) r = Some item'
         \<and> command item' = (if type_of item = App \<and> newCommand a \<noteq> None
                             then newCommand a else command item)
         \<and> icon item' = (if type_of item = App \<and> newIcon a \<noteq> None
                          then newIcon a else icon item)
         \<and> color item' = (if type_of item = FolderGroup
                           then (case colorValue a of
                                   None \<Rightarrow> color item
                                 | Some v \<Rightarrow> if v = [] then None else Some v)
                           else color item)
         \<and> url item' = (if type_of item = Link \<and> newUrl a \<noteq> None
                         then newUrl a else url item))"
proof (intro impI, elim conjE)
  assume r: "resolve (dockItems p) r = Some item"
    and n: "newName a \<noteq> None" "newTitle a \<noteq> None"
  from n obtain item' where e: "editFields item a = Some item'"
    using editFields_Some_iff by blast
  from r e have "resolve (dockItems (editItem h r a p)) r = Some item'"
    by (simp add: dockItems_editItem resolve_update_ref)
  with e show "\<exists>item'. resolve (dockItems (editItem h r a p)) r = Some item'
         \<and> command item' = (if type_of item = App \<and> newCommand a \<noteq> None
                             then newCommand a else command item)
         \<and> icon item' = (if type_of item = App \<and> newIcon a \<noteq> None
                          then newIcon a else icon item)
         \<and> color item' = (if type_of item = FolderGroup
                           then (case colorValue a of
                                   None \<Rightarrow> color item
                                 | Some v \<Rightarrow> if v = [] then None else Some v)
                           else color item)
         \<and> url item' = (if type_of item = Link \<and> newUrl a \<noteq> None
                         then newUrl a else url item)"
    using editFields_command editFields_icon editFields_color editFields_url by blast
qed

theorem editItem_writes_defined_values_witness:
  "resolve (dockItems (example_provider [chrome_launcher])) (TopLevel 0) = Some chrome_launcher
   \<and> newName empty_answers \<noteq> None \<and> newTitle empty_answers \<noteq> None
   \<and> (\<exists>item'. resolve (dockItems (editItem example_host (TopLevel 0) empty_answers
                      (example_provider [chrome_launcher]))) (TopLevel 0) = Some item'
          \<and> command item' = Some [] \<and> icon item' = Some [])
   \<and> (\<exists>item'. resolve (dockItems (editItem example_host (TopLevel 0) dismissed_answers
                      (example_provider [chrome_launcher]))) (TopLevel 0) = Some item'
          \<and> command item' = Some ''workbench.action.openChrome''
          \<and> icon item' = Some ''$(chrome)'')"
proof -
  have r: "resolve (dockItems (example_provider [chrome_launcher])) (TopLevel 0)
             = Some chrome_launcher"
    by (simp add: example_provider_def nth_opt_def)
  have e: "newName empty_answers \<noteq> None" "newTitle empty_answers \<noteq> None"
    "newCommand empty_answers = Some []" "newIcon empty_answers = Some []"
    by (simp_all add: empty_answers_def)
  have d: "newName dismissed_answers \<noteq> None" "newTitle dismissed_answers \<noteq> None"
    "newCommand dismissed_answers = None" "newIcon dismissed_answers = None"
    by (simp_all add: dismissed_answers_def)
  have c: "type_of chrome_launcher = App"
    "command chrome_launcher = Some ''workbench.action.openChrome''"
    "icon chrome_launcher = Some ''$(chrome)''"
    by (simp_all add: chrome_launcher_def)
  from editItem_writes_defined_values
         [of "example_provider [chrome_launcher]" "TopLevel 0" chrome_launcher empty_answers
            example_host] r e c
  have 1: "\<exists>item'. resolve (dockItems (editItem example_host (TopLevel 0) empty_answers
                      (example_provider [chrome_launcher]))) (TopLevel 0) = Some item'
          \<and> command item' = Some [] \<and> icon item' = Some []"
    by auto
  from editItem_writes_defined_values
         [of "example_provider [chrome_launcher]" "TopLevel 0" chrome_launcher dismissed_answers
            example_host] r d c
  have 2: "\<exists>item'. resolve (dockItems (editItem example_host (TopLevel 0) dismissed_answers
                      (example_provider [chrome_launcher]))) (TopLevel 0) = Some item'
          \<and> command item' = Some ''workbench.action.openChrome''
          \<and> icon item' = Some ''$(chrome)''"
    by auto
  from r e(1,2) 1 2 show ?thesis by simp
qed

text \<open>
  C1 as stated fails for each of the four fields: the empty answer replaces the
  command and the icon of an app and the url of a link by the empty string, and the
  empty colour value removes the colour of a folder-group.
\<close>

theorem editItem_empty_value_counterexample:
  "command chrome_launcher = Some ''workbench.action.openChrome''
   \<and> icon chrome_launcher = Some ''$(chrome)''
   \<and> newCommand empty_answers = Some [] \<and> newIcon empty_answers = Some []
   \<and> map command (dockItems (editItem example_host (TopLevel 0) empty_answers
        (example_provider [chrome_launcher]))) = [Some []]
   \<and> map icon (dockItems (editItem example_host (TopLevel 0) empty_answers
        (example_provider [chrome_launcher]))) = [Some []]
   \<and> color blue_group = Some ''#007ACC'' \<and> colorValue empty_answers = Some []
   \<and> map color (dockItems (editItem example_host (TopLevel 0) empty_answers
        (example_provider [blue_group]))) = [None]
   \<and> url (docs_link 4) = Some ''https://y.test'' \<and> newUrl empty_answers = Some []
   \<and> map url (dockItems (editItem example_host (TopLevel 0) empty_answers
        (example_provider [docs_link 4]))) = [Some []]"
  by (simp add: editItem_def editFields_def Let_def example_provider_def nth_opt_def
      modify_at_def and_then_showMessage saveConfiguration_def
      chrome_launcher_def blue_group_def docs_link_def empty_answers_def)

subsection \<open>Adding to a folder\<close>

lemma children_pushChild: "children (pushChild x target) = Some (child_list target @ [x])"
  by (simp add: pushChild_def child_list_def)

text \<open>
  C2, as the code has it. \<open>addItemToFolder\<close> does not look at the type of its target.
  For every target, a folder-group or not, once the dialogs have given a new item,
  the item is appended to the target's children (an absent \<open>children\<close> field
  counting as no children) and the list is saved. The provider is unchanged when
  the type menu is dismissed or the dialogs give no item.
\<close>

theorem addItemToFolder_any_target:
  "(resolve (dockItems p) r = Some target \<and> createItem h now request = Some x
    \<longrightarrow> dockItems (addItemToFolder h now r (Some request) p)
          = update_ref r (pushChild x) (dockItems p)
        \<and> resolve (dockItems (addItemToFolder h now r (Some request) p)) r
            = Some (pushChild x target)
        \<and> children (pushChild x target) = Some (child_list target @ [x])
        \<and> items (config (addItemToFolder h now r (Some request) p))
            = dockItems (addItemToFolder h now r (Some request) p))
   \<and> (createItem h now request = None \<longrightarrow> addItemToFolder h now r (Some request) p = p)
   \<and> addItemToFolder h now r None p = p"
proof -
  have "items (config (addItemToFolder h now r (Some request) p))
            = dockItems (addItemToFolder h now r (Some request) p)"
    if "resolve (dockItems p) r = Some target" "createItem h now request = Some x"
    using that by (simp add: addItemToFolder_def showMessage_def saveConfiguration_def)
  then show ?thesis
    by (auto simp: dockItems_addItemToFolder resolve_update_ref children_pushChild)
       (simp_all add: addItemToFolder_def)
qed

theorem addItemToFolder_any_target_witness:
  "resolve (dockItems (example_provider getDefaultItems)) (TopLevel 0) = Some terminal_item
   \<and> type_of terminal_item = App
   \<and> createItem example_host 5 docs_request = Some (docs_link 5)
   \<and> resolve (dockItems (addItemToFolder example_host 5 (TopLevel 0) (Some docs_request)
        (example_provider getDefaultItems))) (TopLevel 0)
       = Some (pushChild (docs_link 5) terminal_item)
   \<and> children (pushChild (docs_link 5) terminal_item) = Some [docs_link 5]
   \<and> resolve (dockItems (example_provider [work_folder])) (TopLevel 0) = Some work_folder
   \<and> type_of work_folder = FolderGroup
   \<and> resolve (dockItems (addItemToFolder example_host 5 (TopLevel 0) (Some docs_request)
        (example_provider [work_folder]))) (TopLevel 0)
       = Some (pushChild (docs_link 5) work_folder)
   \<and> children (pushChild (docs_link 5) work_folder) = Some (child_list work_folder @ [docs_link 5])
   \<and> createItem example_host 5 (WebLink None None None) = None
   \<and> addItemToFolder example_host 5 (TopLevel 0) (Some (WebLink None None None))
        (example_provider [work_folder]) = example_provider [work_folder]"
proof -
  have r: "resolve (dockItems (example_provider getDefaultItems)) (TopLevel 0) = Some terminal_item"
    "type_of terminal_item = App" "child_list terminal_item = []"
    "resolve (dockItems (example_provider [work_folder])) (TopLevel 0) = Some work_folder"
    "type_of work_folder = FolderGroup"
    by (simp_all add: example_provider_def nth_opt_def getDefaultItems_def terminal_item_def
        child_list_def work_folder_def)
  have c: "createItem example_host 5 docs_request = Some (docs_link 5)"
    "createItem example_host 5 (WebLink None None None) = None"
    by (simp_all add: docs_request_def docs_link_def createLinkItem_def truthy_def or_else_def)
  from addItemToFolder_any_target
         [of "example_provider getDefaultItems" "TopLevel 0" terminal_item example_host 5
            docs_request "docs_link 5"] r(1,3) c(1)
  have 1: "resolve (dockItems (addItemToFolder example_host 5 (TopLevel 0) (Some docs_request)
        (example_provider getDefaultItems))) (TopLevel 0)
       = Some (pushChild (docs_link 5) terminal_item)"
    "children (pushChild (docs_link 5) terminal_item) = Some [docs_link 5]"
    by (simp_all add: nth_opt_modify_at)
  from addItemToFolder_any_target
         [of "example_provider [work_folder]" "TopLevel 0" work_folder example_host 5
            docs_request "docs_link 5"] r(4) c(1)
  have 2: "resolve (dockItems (addItemToFolder example_host 5 (TopLevel 0) (Some docs_request)
        (example_provider [work_folder]))) (TopLevel 0)
       = Some (pushChild (docs_link 5) work_folder)"
    "children (pushChild (docs_link 5) work_folder) = Some (child_list work_folder @ [docs_link 5])"
    by (simp_all add: nth_opt_modify_at)
  from addItemToFolder_any_target
         [of "example_provider [work_folder]" "TopLevel 0" work_folder example_host 5
            "WebLink None None None" "docs_link 5"] c(2)
  have 3: "addItemToFolder example_host 5 (TopLevel 0) (Some (WebLink None None None))
        (example_provider [work_folder]) = example_provider [work_folder]"
    by simp
  from r c 1 2 3 show ?thesis by simp
qed

text \<open>
  C2 as stated fails on a target that is an app item: the new link becomes its
  child, and the item list is no longer the one before.
\<close>

theorem addItemToFolder_app_target_counterexample:
  "resolve (dockItems (example_provider getDefaultItems)) (TopLevel 0) = Some terminal_item
   \<and> type_of terminal_item = App
   \<and> children terminal_item = None
   \<and> map children (dockItems (addItemToFolder example_host 5 (TopLevel 0) (Some docs_request)
        (example_provider getDefaultItems))) = [Some [docs_link 5], None, None, None]
   \<and> dockItems (addItemToFolder example_host 5 (TopLevel 0) (Some docs_request)
        (example_provider getDefaultItems)) \<noteq> dockItems (example_provider getDefaultItems)"
  by (simp add: addItemToFolder_def example_provider_def getDefaultItems_def terminal_item_def
      nth_opt_def modify_at_def pushChild_def set_children_def docs_request_def docs_link_def
      createLinkItem_def truthy_def or_else_def showMessage_def saveConfiguration_def)

end
